theory Spec2Isabelle
  imports Complex_Main "HOL-Library.Multiset"
begin

section \<open>Strings\<close>

text \<open>
  A JavaScript string is a sequence of UTF-16 code units; \<open>length\<close> is the source's
  \<^verbatim>\<open>.length\<close>.  A literal of the source is written \<open>str ''...''\<close>.
\<close>

type_synonym jsstring = "int list"

definition str :: "string \<Rightarrow> jsstring" where
  "str s = map of_char s"

text \<open>\<^verbatim>\<open>s.startsWith(n)\<close> and \<^verbatim>\<open>s.includes(n)\<close>: \<open>n\<close> occurs in \<open>s\<close> as a
  contiguous run of code units.\<close>

fun startsWith :: "'a list \<Rightarrow> 'a list \<Rightarrow> bool" where
  "startsWith s [] = True"
| "startsWith [] (c # cs) = False"
| "startsWith (x # xs) (c # cs) = (x = c \<and> startsWith xs cs)"

fun includesStr :: "'a list \<Rightarrow> 'a list \<Rightarrow> bool" where
  "includesStr [] n = (n = [])"
| "includesStr (x # xs) n = (startsWith (x # xs) n \<or> includesStr xs n)"

text \<open>\<^verbatim>\<open>s.split(d)\<close> for a separator of one code unit: the pieces between the
  occurrences of \<open>d\<close>, empty pieces included, so the result is never empty.\<close>

fun splitStr :: "'a list \<Rightarrow> 'a \<Rightarrow> 'a list list" where
  "splitStr [] d = [] # []"
| "splitStr (c # cs) d =
     (if c = d then [] # splitStr cs d
      else (case splitStr cs d of
              [] \<Rightarrow> [c] # []
            | t # ts \<Rightarrow> (c # t) # ts))"

text \<open>\<^verbatim>\<open>s.substring(0, n)\<close> is \<^term>\<open>take n s\<close>.\<close>

text \<open>The white space and line terminators of the language, which \<^verbatim>\<open>trim\<close> strips
  from both ends: U+0009 to U+000D, U+0020, U+00A0, U+1680, U+2000 to U+200A, U+2028,
  U+2029, U+202F, U+205F, U+3000 and U+FEFF.\<close>

definition isWhiteSpace :: "int \<Rightarrow> bool" where
  "isWhiteSpace u =
     ((9 \<le> u \<and> u \<le> 13) \<or> u = 32 \<or> u = 160 \<or> u = 5760 \<or> (8192 \<le> u \<and> u \<le> 8202)
      \<or> u = 8232 \<or> u = 8233 \<or> u = 8239 \<or> u = 8287 \<or> u = 12288 \<or> u = 65279)"

definition trim :: "jsstring \<Rightarrow> jsstring" where
  "trim s = rev (dropWhile isWhiteSpace (rev (dropWhile isWhiteSpace s)))"

text \<open>The tokens of a string that white space separates: its maximal runs of code
  units that are not white space.\<close>

fun whitespaceTokens :: "jsstring \<Rightarrow> jsstring list" where
  "whitespaceTokens [] = []"
| "whitespaceTokens (c # cs) =
     (if isWhiteSpace c then whitespaceTokens cs
      else (case cs of
              [] \<Rightarrow> [c] # []
            | d # ds \<Rightarrow>
                if isWhiteSpace d then [c] # whitespaceTokens cs
                else (case whitespaceTokens cs of
                        [] \<Rightarrow> [c] # []
                      | t # ts \<Rightarrow> (c # t) # ts)))"

section \<open>Numbers\<close>

text \<open>
  A JavaScript number is an IEEE 754 double: finite, infinite or \<^verbatim>\<open>NaN\<close>.  A finite
  number is written as a rational.  A confidence that a record holds is written as the
  decimal it prints as, and stands for the double nearest to it; comparisons of
  confidences with the decimal literals of the source are comparisons of these
  decimals.  Sums and quotients are computed in doubles: \<open>roundToDouble\<close> is rounding
  to the nearest double, ties to the even significand, with 53 bits of precision and
  the least exponent -1074, and \<open>toDouble\<close> adds the overflow to infinity.
\<close>

datatype number = NaN | NegInf | Fin rat | PosInf

text \<open>The number of binary digits of a positive integer.\<close>

function bitlen :: "int \<Rightarrow> int" where
  "bitlen n = (if n \<le> 0 then 0 else 1 + bitlen (n div 2))"
  by pat_completeness auto
termination
  by (relation "measure nat") auto

declare bitlen.simps [simp del]

definition pow2 :: "int \<Rightarrow> rat" where
  "pow2 e = (if 0 \<le> e then 2 ^ nat e else 1 / 2 ^ nat (- e))"

text \<open>For a positive \<open>a\<close>, the exponent \<open>e\<close> with \<open>2 ^ e \<le> a < 2 ^ (e + 1)\<close>.\<close>

definition floorLog2 :: "rat \<Rightarrow> int" where
  "floorLog2 a =
     (let (n, d) = quotient_of a;
          e = bitlen n - bitlen d
      in if pow2 e \<le> a then e else e - 1)"

definition roundHalfEven :: "rat \<Rightarrow> int" where
  "roundHalfEven q =
     (let f = \<lfloor>q\<rfloor>; r = q - of_int f
      in if r < 1 / 2 then f else if 1 / 2 < r then f + 1 else if even f then f else f + 1)"

definition roundToDouble :: "rat \<Rightarrow> rat" where
  "roundToDouble q =
     (if q = 0 then 0
      else (let a = \<bar>q\<bar>;
                p = max (floorLog2 a - 52) (- 1074);
                m = roundHalfEven (a / pow2 p)
            in sgn q * of_int m * pow2 p))"

definition toDouble :: "rat \<Rightarrow> number" where
  "toDouble q =
     (let d = roundToDouble q
      in if d = 0 then Fin 0
         else if 1024 \<le> floorLog2 \<bar>d\<bar> then (if 0 < d then PosInf else NegInf)
         else Fin d)"

text \<open>\<^verbatim>\<open>x + y\<close> of two doubles.\<close>

fun addNumber :: "number \<Rightarrow> number \<Rightarrow> number" where
  "addNumber NaN y = NaN"
| "addNumber x NaN = NaN"
| "addNumber PosInf NegInf = NaN"
| "addNumber NegInf PosInf = NaN"
| "addNumber PosInf y = PosInf"
| "addNumber NegInf y = NegInf"
| "addNumber x PosInf = PosInf"
| "addNumber x NegInf = NegInf"
| "addNumber (Fin a) (Fin b) = toDouble (a + b)"

text \<open>\<^verbatim>\<open>x / n\<close> of a double by a positive count.\<close>

fun divNumber :: "number \<Rightarrow> nat \<Rightarrow> number" where
  "divNumber NaN n = NaN"
| "divNumber PosInf n = PosInf"
| "divNumber NegInf n = NegInf"
| "divNumber (Fin a) n = toDouble (a / of_nat n)"

fun lessNumber :: "number \<Rightarrow> number \<Rightarrow> bool" where
  "lessNumber NaN y = False"
| "lessNumber x NaN = False"
| "lessNumber NegInf y = (y \<noteq> NegInf)"
| "lessNumber x NegInf = False"
| "lessNumber PosInf y = False"
| "lessNumber x PosInf = True"
| "lessNumber (Fin a) (Fin b) = (a < b)"

text \<open>\<^verbatim>\<open>x >= y\<close>: false when either is \<^verbatim>\<open>NaN\<close>.\<close>

definition geNumber :: "number \<Rightarrow> number \<Rightarrow> bool" where
  "geNumber x y = (x \<noteq> NaN \<and> y \<noteq> NaN \<and> \<not> lessNumber x y)"

section \<open>Functions of the language that are parameters\<close>

text \<open>
  Three functions of the language are parameters of the model: lowercasing
  (\<^verbatim>\<open>String.prototype.toLowerCase\<close>, which follows the Unicode tables and can change
  the length of a string), the text of a number (\<^verbatim>\<open>Number.prototype.toString\<close>) and
  the number a string denotes (\<^verbatim>\<open>Number(s)\<close>, \<^verbatim>\<open>NaN\<close> when it denotes none).
\<close>

record builtins =
  toLowerCase :: "jsstring \<Rightarrow> jsstring"
  numberToString :: "number \<Rightarrow> jsstring"
  stringToNumber :: "jsstring \<Rightarrow> number"

section \<open>Data model\<close>

text \<open>The interfaces of \<^verbatim>\<open>types.ts\<close>; an optional field is an \<^typ>\<open>'a option\<close>.\<close>

record Paper =
  arxiv_id :: jsstring
  title :: jsstring
  authors :: "jsstring list"
  abstract :: jsstring
  published_date :: jsstring
  pdf_url :: jsstring
  categories :: "jsstring list"

record Concept =
  name :: jsstring
  category :: jsstring
  description :: jsstring
  confidence :: rat

record Method =
  name :: jsstring
  description :: jsstring
  is_baseline :: bool
  confidence :: rat

record Dataset =
  name :: jsstring
  description :: "jsstring option"
  task_type :: "jsstring option"
  size :: "jsstring option"

record Metric =
  name :: jsstring
  unit :: "jsstring option"
  higher_is_better :: bool
  description :: "jsstring option"

record Relationship =
  relationship_type :: jsstring
  target_concept :: jsstring
  evidence :: jsstring
  confidence :: rat

record ExtractionResult =
  concepts :: "Concept list"
  methods :: "Method list"
  datasets :: "Dataset list"
  metrics :: "Metric list"
  relationships :: "Relationship list"

record ValidationResult =
  isValid :: bool
  confidence :: number
  issues :: "jsstring list"
  extraction :: ExtractionResult

section \<open>ValidationAgent\<close>

definition paperContent :: "builtins \<Rightarrow> Paper \<Rightarrow> jsstring" where
  "paperContent B paper = toLowerCase B (title paper @ str '' '' @ abstract paper)"

definition hasSemanticOverlap :: "builtins \<Rightarrow> jsstring \<Rightarrow> jsstring \<Rightarrow> bool" where
  "hasSemanticOverlap B concept content =
     (let keywords = splitStr (toLowerCase B concept) 32
      in list_ex (\<lambda>keyword. length keyword > 3 \<and> includesStr content keyword) keywords)"

definition isConceptRelevant :: "builtins \<Rightarrow> Concept \<Rightarrow> Paper \<Rightarrow> bool" where
  "isConceptRelevant B concept paper =
     (let content = paperContent B paper;
          conceptLower = toLowerCase B (Concept.name concept)
      in includesStr content conceptLower \<or> hasSemanticOverlap B (Concept.name concept) content)"

definition isRelationshipSensible :: "builtins \<Rightarrow> Relationship \<Rightarrow> Paper \<Rightarrow> bool" where
  "isRelationshipSensible B relationship paper =
     (let content = paperContent B paper;
          evidenceLower = toLowerCase B (evidence relationship)
      in includesStr content evidenceLower \<or> length evidenceLower > 20)"

definition validateConcept :: "builtins \<Rightarrow> Concept \<Rightarrow> Paper \<Rightarrow> bool" where
  "validateConcept B concept paper =
     (if Concept.confidence concept < 4 / 10 then False
      else if length (Concept.name concept) < 2 \<or> length (Concept.name concept) > 100 then False
      else if \<not> isConceptRelevant B concept paper then False
      else True)"

definition validateRelationship :: "builtins \<Rightarrow> Relationship \<Rightarrow> Paper \<Rightarrow> bool" where
  "validateRelationship B relationship paper =
     (if Relationship.confidence relationship < 5 / 10 then False
      else if length (evidence relationship) < 10 then False
      else if \<not> isRelationshipSensible B relationship paper then False
      else True)"

text \<open>The local variables of \<^verbatim>\<open>validateExtraction\<close> that its two loops update.  The
  running sum \<^verbatim>\<open>overallConfidence\<close> is a double, and a confidence enters the sum as the
  double it stands for.\<close>

record vstate =
  v_issues :: "jsstring list"
  overallConfidence :: number
  validEntityCount :: nat
  validConcepts :: "Concept list"
  validRelationships :: "Relationship list"

fun conceptLoop :: "builtins \<Rightarrow> Paper \<Rightarrow> Concept list \<Rightarrow> vstate \<Rightarrow> vstate" where
  "conceptLoop B paper [] s = s"
| "conceptLoop B paper (concept # rest) s =
     conceptLoop B paper rest
       (if validateConcept B concept paper
        then s\<lparr>validConcepts := validConcepts s @ [concept],
               overallConfidence :=
                 addNumber (overallConfidence s) (toDouble (Concept.confidence concept)),
               validEntityCount := validEntityCount s + 1\<rparr>
        else s\<lparr>v_issues := v_issues s
                 @ [str ''Low-confidence concept: '' @ Concept.name concept]\<rparr>)"

fun relationshipLoop :: "builtins \<Rightarrow> Paper \<Rightarrow> Relationship list \<Rightarrow> vstate \<Rightarrow> vstate" where
  "relationshipLoop B paper [] s = s"
| "relationshipLoop B paper (relationship # rest) s =
     relationshipLoop B paper rest
       (if validateRelationship B relationship paper
        then s\<lparr>validRelationships := validRelationships s @ [relationship],
               overallConfidence :=
                 addNumber (overallConfidence s) (toDouble (Relationship.confidence relationship)),
               validEntityCount := validEntityCount s + 1\<rparr>
        else s\<lparr>v_issues := v_issues s @
               [str ''Weak relationship: '' @ relationship_type relationship @ str '' -> '' @
                target_concept relationship]\<rparr>)"

definition validateExtraction ::
  "builtins \<Rightarrow> ExtractionResult \<Rightarrow> Paper \<Rightarrow> ValidationResult" where
  "validateExtraction B extr paper =
     (let s0 = \<lparr>v_issues = [], overallConfidence = Fin 0, validEntityCount = 0,
                validConcepts = [], validRelationships = []\<rparr>;
          s1 = conceptLoop B paper (concepts extr) s0;
          s2 = relationshipLoop B paper (relationships extr) s1;
          overall = (if validEntityCount s2 > 0
                     then divNumber (overallConfidence s2) (validEntityCount s2) else Fin 0);
          valid = (length (validConcepts s2) > 0 \<and> geNumber overall (toDouble (6 / 10)))
      in \<lparr>isValid = valid, confidence = overall, issues = v_issues s2,
          extraction = extr\<lparr>concepts := validConcepts s2,
                                    relationships := validRelationships s2\<rparr>\<rparr>)"

section \<open>ExtractionAgent: the parse boundary\<close>

text \<open>
  The elements of the arrays that \<^verbatim>\<open>JSON.parse\<close> returns are untyped.  A value is
  \<^verbatim>\<open>undefined\<close> (an absent property), \<^verbatim>\<open>null\<close>, a boolean, a number, a string,
  an array, or an object with its own properties in the order of the text.
\<close>

datatype jsval =
  JUndefined | JNull | JBool bool | JNum number | JStr jsstring
| JArr "jsval list" | JObj "(jsstring \<times> jsval) list"

datatype error = TypeError | Failure string

text \<open>Truthiness, as \<^verbatim>\<open>&&\<close>, \<^verbatim>\<open>||\<close> and \<^verbatim>\<open>filter\<close> test it.\<close>

fun truthyNumber :: "number \<Rightarrow> bool" where
  "truthyNumber NaN = False"
| "truthyNumber (Fin q) = (q \<noteq> 0)"
| "truthyNumber NegInf = True"
| "truthyNumber PosInf = True"

fun truthy :: "jsval \<Rightarrow> bool" where
  "truthy JUndefined = False"
| "truthy JNull = False"
| "truthy (JBool b) = b"
| "truthy (JNum n) = truthyNumber n"
| "truthy (JStr s) = (s \<noteq> [])"
| "truthy (JArr xs) = True"
| "truthy (JObj kvs) = True"

text \<open>Property access \<^verbatim>\<open>v.k\<close> for the property names the source reads.  Only an
  object has them; when the text of an object repeats a name, the last value counts.
  The source guards every access with \<^verbatim>\<open>v &&\<close>, so it is never applied to
  \<^verbatim>\<open>null\<close> or \<^verbatim>\<open>undefined\<close>.\<close>

fun getProp :: "jsval \<Rightarrow> jsstring \<Rightarrow> jsval" where
  "getProp (JObj kvs) k = (case map_of (rev kvs) k of Some v \<Rightarrow> v | None \<Rightarrow> JUndefined)"
| "getProp v k = JUndefined"

fun joinStr :: "jsstring \<Rightarrow> jsstring list \<Rightarrow> jsstring" where
  "joinStr sep [] = []"
| "joinStr sep [x] = x"
| "joinStr sep (x # y # ys) = x @ sep @ joinStr sep (y # ys)"

text \<open>An object of the parsed text whose own properties include \<^verbatim>\<open>toString\<close>: the
  property hides the method of the prototype, and its value is never a function.\<close>

definition hasOwnToString :: "(jsstring \<times> jsval) list \<Rightarrow> bool" where
  "hasOwnToString kvs = list_ex (\<lambda>kv. fst kv = str ''toString'') kvs"

text \<open>
  \<^verbatim>\<open>v.toString()\<close>.  A method call on \<^verbatim>\<open>null\<close> or \<^verbatim>\<open>undefined\<close> raises, and so
  does the call on an object with an own \<^verbatim>\<open>toString\<close> property.  An array joins the
  texts of its elements with commas, where \<^verbatim>\<open>null\<close> and \<^verbatim>\<open>undefined\<close> give the
  empty text and an exception of an element ends the call.
\<close>

fun toStringJS :: "builtins \<Rightarrow> jsval \<Rightarrow> error + jsstring"
  and elementTexts :: "builtins \<Rightarrow> jsval list \<Rightarrow> error + jsstring list" where
  "toStringJS B JUndefined = Inl TypeError"
| "toStringJS B JNull = Inl TypeError"
| "toStringJS B (JBool b) = Inr (if b then str ''true'' else str ''false'')"
| "toStringJS B (JNum n) = Inr (numberToString B n)"
| "toStringJS B (JStr s) = Inr s"
| "toStringJS B (JArr xs) =
     (case elementTexts B xs of Inl e \<Rightarrow> Inl e | Inr ts \<Rightarrow> Inr (joinStr (str '','') ts))"
| "toStringJS B (JObj kvs) =
     (if hasOwnToString kvs then Inl TypeError else Inr (str ''[object Object]''))"
| "elementTexts B [] = Inr []"
| "elementTexts B (x # xs) =
     (case (if x = JUndefined \<or> x = JNull then Inr [] else toStringJS B x) of
        Inl e \<Rightarrow> Inl e
      | Inr t \<Rightarrow> (case elementTexts B xs of Inl e \<Rightarrow> Inl e | Inr ts \<Rightarrow> Inr (t # ts)))"

text \<open>\<^verbatim>\<open>Number(v)\<close>.  An array or object converts through its text, and raises when
  that conversion raises.\<close>

fun toNumber :: "builtins \<Rightarrow> jsval \<Rightarrow> error + number" where
  "toNumber B JUndefined = Inr NaN"
| "toNumber B JNull = Inr (Fin 0)"
| "toNumber B (JBool b) = Inr (Fin (if b then 1 else 0))"
| "toNumber B (JNum n) = Inr n"
| "toNumber B (JStr s) = Inr (stringToNumber B s)"
| "toNumber B v = (case toStringJS B v of Inl e \<Rightarrow> Inl e | Inr t \<Rightarrow> Inr (stringToNumber B t))"

definition Math_max :: "number \<Rightarrow> number \<Rightarrow> number" where
  "Math_max x y = (if x = NaN \<or> y = NaN then NaN else if lessNumber x y then y else x)"

definition Math_min :: "number \<Rightarrow> number \<Rightarrow> number" where
  "Math_min x y = (if x = NaN \<or> y = NaN then NaN else if lessNumber y x then y else x)"

text \<open>\<^verbatim>\<open>Math.min(1, Math.max(0, Number(v) || 0.7))\<close>.\<close>

definition coerceConfidence :: "builtins \<Rightarrow> jsval \<Rightarrow> error + number" where
  "coerceConfidence B v =
     (case toNumber B v of
        Inl e \<Rightarrow> Inl e
      | Inr n \<Rightarrow>
         (let d = (if truthyNumber n then n else Fin (7 / 10))
          in Inr (Math_min (Fin 1) (Math_max (Fin 0) d))))"

text \<open>A record stores the coerced confidence as a rational.  The coerced number is
  always finite (lemma \<open>coerceConfidence_finite\<close>), so the other cases never arise.\<close>

fun finiteValue :: "number \<Rightarrow> rat" where
  "finiteValue (Fin q) = q"
| "finiteValue n = 0"

text \<open>\<^verbatim>\<open>category.toLowerCase()\<close> is a method of strings only: any other value
  raises.\<close>

definition validateCategory :: "builtins \<Rightarrow> jsval \<Rightarrow> error + jsstring" where
  "validateCategory B categoryV =
     (let validCategories = [str ''method'', str ''technique'', str ''problem'', str ''domain'',
                             str ''application'', str ''framework'']
      in case categoryV of
           JStr s \<Rightarrow> Inr (if toLowerCase B s \<in> set validCategories
                          then toLowerCase B s else str ''technique'')
         | _ \<Rightarrow> Inl TypeError)"

definition validateRelationshipType :: "builtins \<Rightarrow> jsval \<Rightarrow> error + jsstring" where
  "validateRelationshipType B typeV =
     (let validTypes = [str ''introduces'', str ''extends'', str ''improves_on'',
                        str ''evaluates'', str ''uses'', str ''compares'', str ''applies'']
      in case typeV of
           JStr s \<Rightarrow> Inr (if toLowerCase B s \<in> set validTypes
                          then toLowerCase B s else str ''uses'')
         | _ \<Rightarrow> Inl TypeError)"

definition isEvidenceInPaper :: "builtins \<Rightarrow> jsstring \<Rightarrow> Paper \<Rightarrow> bool" where
  "isEvidenceInPaper B evidenceText paper =
     (let paperText = toLowerCase B (title paper @ str '' '' @ abstract paper)
      in includesStr paperText (take 20 (toLowerCase B evidenceText)))"

text \<open>\<^verbatim>\<open>xs.map(f)\<close> where \<open>f\<close> may raise: the first exception ends the call.\<close>

fun mapE :: "('a \<Rightarrow> error + 'b) \<Rightarrow> 'a list \<Rightarrow> error + 'b list" where
  "mapE f [] = Inr []"
| "mapE f (x # xs) =
     (case f x of
        Inl e \<Rightarrow> Inl e
      | Inr y \<Rightarrow> (case mapE f xs of Inl e \<Rightarrow> Inl e | Inr ys \<Rightarrow> Inr (y # ys)))"

definition hasConceptFields :: "jsval \<Rightarrow> bool" where
  "hasConceptFields concept =
     (truthy concept \<and> truthy (getProp concept (str ''name''))
      \<and> truthy (getProp concept (str ''category''))
      \<and> truthy (getProp concept (str ''description'')))"

text \<open>The object that the \<^verbatim>\<open>map\<close> of \<^verbatim>\<open>validateConcepts\<close> builds; its fields are
  evaluated in the order of the source.\<close>

definition coerceConcept :: "builtins \<Rightarrow> jsval \<Rightarrow> error + Concept" where
  "coerceConcept B concept =
     (case toStringJS B (getProp concept (str ''name'')) of
        Inl e \<Rightarrow> Inl e
      | Inr n \<Rightarrow>
         (case validateCategory B (getProp concept (str ''category'')) of
            Inl e \<Rightarrow> Inl e
          | Inr c \<Rightarrow>
             (case toStringJS B (getProp concept (str ''description'')) of
                Inl e \<Rightarrow> Inl e
              | Inr d \<Rightarrow>
                 (case coerceConfidence B (getProp concept (str ''confidence'')) of
                    Inl e \<Rightarrow> Inl e
                  | Inr q \<Rightarrow>
                     Inr \<lparr>Concept.name = trim n, category = c, description = trim d,
                          confidence = finiteValue q\<rparr>))))"

definition validateConcepts :: "builtins \<Rightarrow> jsval list \<Rightarrow> error + Concept list" where
  "validateConcepts B rawConcepts =
     (case mapE (coerceConcept B) (filter hasConceptFields rawConcepts) of
        Inl e \<Rightarrow> Inl e
      | Inr cs \<Rightarrow> Inr (filter (\<lambda>concept. length (Concept.name concept) > 1) cs))"

definition hasRelationshipFields :: "jsval \<Rightarrow> bool" where
  "hasRelationshipFields rel =
     (truthy rel \<and> truthy (getProp rel (str ''relationship_type''))
      \<and> truthy (getProp rel (str ''target_concept''))
      \<and> truthy (getProp rel (str ''evidence'')))"

definition coerceRelationship :: "builtins \<Rightarrow> jsval \<Rightarrow> error + Relationship" where
  "coerceRelationship B rel =
     (case validateRelationshipType B (getProp rel (str ''relationship_type'')) of
        Inl e \<Rightarrow> Inl e
      | Inr t \<Rightarrow>
         (case toStringJS B (getProp rel (str ''target_concept'')) of
            Inl e \<Rightarrow> Inl e
          | Inr c \<Rightarrow>
             (case toStringJS B (getProp rel (str ''evidence'')) of
                Inl e \<Rightarrow> Inl e
              | Inr ev \<Rightarrow>
                 (case coerceConfidence B (getProp rel (str ''confidence'')) of
                    Inl e \<Rightarrow> Inl e
                  | Inr q \<Rightarrow>
                     Inr \<lparr>relationship_type = t, target_concept = trim c, evidence = trim ev,
                          confidence = finiteValue q\<rparr>))))"

definition validateRelationships ::
  "builtins \<Rightarrow> jsval list \<Rightarrow> Paper \<Rightarrow> error + Relationship list" where
  "validateRelationships B rawRelationships paper =
     (case mapE (coerceRelationship B) (filter hasRelationshipFields rawRelationships) of
        Inl e \<Rightarrow> Inl e
      | Inr rs \<Rightarrow> Inr (filter (\<lambda>rel. isEvidenceInPaper B (evidence rel) paper) rs))"

section \<open>PipelineOrchestrator\<close>

text \<open>
  The orchestrator talks to the database client, to arXiv and to the language model.
  Their answers are parameters of the model: each is a function that returns the
  answer or the exception it raises, and a database operation also returns the new
  database state.  Each operation of the client writes at most one row, so an
  operation that raises leaves the state as it was; \<^verbatim>\<open>findPaperByArxivId\<close> returns
  the row, or \<^verbatim>\<open>null\<close> when there is none.
\<close>

record 'db env =
  findPaperByArxivId :: "'db \<Rightarrow> jsstring \<Rightarrow> error + Paper option"
  insertPaper :: "'db \<Rightarrow> Paper \<Rightarrow> error + jsstring \<times> 'db"
  insertConcept :: "'db \<Rightarrow> Concept \<Rightarrow> error + jsstring \<times> 'db"
  linkPaperConcept :: "'db \<Rightarrow> jsstring \<Rightarrow> jsstring \<Rightarrow> jsstring \<Rightarrow> rat \<Rightarrow> error + 'db"
  insertRelationship :: "'db \<Rightarrow> jsstring \<Rightarrow> Relationship \<Rightarrow> error + 'db"
  fetchPaper :: "jsstring \<Rightarrow> error + Paper"
  extractEntities :: "Paper \<Rightarrow> error + ExtractionResult"

text \<open>Every call that leaves the orchestrator is recorded, in order, whether it
  returns or raises.\<close>

datatype event =
  FindPaperByArxivId jsstring
| FetchPaper jsstring
| InsertPaper Paper
| ExtractEntities Paper
| ValidateExtraction ExtractionResult Paper
| InsertConcept Concept
| LinkPaperConcept jsstring jsstring jsstring rat
| InsertRelationship jsstring Relationship
| AnalyzeCrossPaperRelationships jsstring
| Sleep nat

type_synonym ArxivPaper = Paper

definition BATCH_SIZE :: nat where
  "BATCH_SIZE = 5"

definition MIN_CONFIDENCE_THRESHOLD :: rat where
  "MIN_CONFIDENCE_THRESHOLD = 7 / 10"

definition isRelevantToGaussianSplatting :: "builtins \<Rightarrow> Paper \<Rightarrow> bool" where
  "isRelevantToGaussianSplatting B paper =
     (let content = toLowerCase B (title paper @ str '' '' @ abstract paper);
          gsKeywords = [str ''gaussian'', str ''splatting'', str ''3dgs'', str ''radiance field'',
                        (str ''novel view synthesis'')]
      in list_ex (\<lambda>keyword. includesStr content keyword) gsKeywords)"

text \<open>\<^verbatim>\<open>storeKnowledgeGraph\<close>: the state of each loop is the database, the
  counter \<^verbatim>\<open>storedCount\<close> and the calls made so far.  An exception inside the
  \<^verbatim>\<open>try\<close> of one entity is caught there and the loop goes on.\<close>

fun storeConceptsLoop ::
  "'db env \<Rightarrow> jsstring \<Rightarrow> Concept list \<Rightarrow> 'db \<times> nat \<times> event list \<Rightarrow> 'db \<times> nat \<times> event list" where
  "storeConceptsLoop env paperId [] s = s"
| "storeConceptsLoop env paperId (concept # rest) (db, storedCount, tr) =
     storeConceptsLoop env paperId rest
       (if Concept.confidence concept \<ge> 7 / 10 then
          (case insertConcept env db concept of
             Inl e \<Rightarrow> (db, storedCount, tr @ [InsertConcept concept])
           | Inr (conceptId, db1) \<Rightarrow>
              (case linkPaperConcept env db1 paperId conceptId (str ''mentions'')
                      (Concept.confidence concept) of
                 Inl e \<Rightarrow>
                   (db1, storedCount,
                    tr @ [InsertConcept concept,
                          LinkPaperConcept paperId conceptId (str ''mentions'')
                            (Concept.confidence concept)])
               | Inr db2 \<Rightarrow>
                   (db2, storedCount + 1,
                    tr @ [InsertConcept concept,
                          LinkPaperConcept paperId conceptId (str ''mentions'')
                            (Concept.confidence concept)])))
        else (db, storedCount, tr))"

fun storeRelationshipsLoop ::
  "'db env \<Rightarrow> jsstring \<Rightarrow> Relationship list \<Rightarrow> 'db \<times> nat \<times> event list \<Rightarrow> 'db \<times> nat \<times> event list" where
  "storeRelationshipsLoop env paperId [] s = s"
| "storeRelationshipsLoop env paperId (relationship # rest) (db, storedCount, tr) =
     storeRelationshipsLoop env paperId rest
       (if Relationship.confidence relationship \<ge> 7 / 10 then
          (case insertRelationship env db paperId relationship of
             Inl e \<Rightarrow> (db, storedCount, tr @ [InsertRelationship paperId relationship])
           | Inr db1 \<Rightarrow> (db1, storedCount + 1, tr @ [InsertRelationship paperId relationship]))
        else (db, storedCount, tr))"

definition storeKnowledgeGraph ::
  "'db env \<Rightarrow> 'db \<Rightarrow> jsstring \<Rightarrow> ExtractionResult \<Rightarrow> 'db \<times> nat \<times> event list" where
  "storeKnowledgeGraph env db paperId extr =
     storeRelationshipsLoop env paperId (relationships extr)
       (storeConceptsLoop env paperId (concepts extr) (db, 0, []))"

text \<open>The body of the \<^verbatim>\<open>try\<close> block of \<^verbatim>\<open>processPaper\<close>: the value returned or
  the exception raised, the database afterwards, and the calls made.\<close>

definition processPaperBody ::
  "builtins \<Rightarrow> 'db env \<Rightarrow> 'db \<Rightarrow> jsstring \<Rightarrow> (error + bool) \<times> 'db \<times> event list" where
  "processPaperBody B env db arxivId =
     (case findPaperByArxivId env db arxivId of
        Inl e \<Rightarrow> (Inl e, db, [FindPaperByArxivId arxivId])
      | Inr (Some existing) \<Rightarrow> (Inr True, db, [FindPaperByArxivId arxivId])
      | Inr None \<Rightarrow>
         (case fetchPaper env arxivId of
            Inl e \<Rightarrow> (Inl e, db, [FindPaperByArxivId arxivId, FetchPaper arxivId])
          | Inr paper \<Rightarrow>
             if \<not> isRelevantToGaussianSplatting B paper
             then (Inr False, db, [FindPaperByArxivId arxivId, FetchPaper arxivId])
             else
               (case insertPaper env db paper of
                  Inl e \<Rightarrow>
                    (Inl e, db,
                     [FindPaperByArxivId arxivId, FetchPaper arxivId, InsertPaper paper])
                | Inr (paperId, db1) \<Rightarrow>
                   (case extractEntities env paper of
                      Inl e \<Rightarrow>
                        (Inl e, db1,
                         [FindPaperByArxivId arxivId, FetchPaper arxivId, InsertPaper paper,
                          ExtractEntities paper])
                    | Inr extr \<Rightarrow>
                       (let validated = validateExtraction B extr paper;
                            (db2, storedCount, tr) =
                               storeKnowledgeGraph env db1 paperId (extraction validated)
                        in (Inr True, db2,
                            [FindPaperByArxivId arxivId, FetchPaper arxivId, InsertPaper paper,
                             ExtractEntities paper, ValidateExtraction extr paper]
                            @ tr @ [AnalyzeCrossPaperRelationships paperId]))))))"

text \<open>The \<^verbatim>\<open>catch\<close> of \<^verbatim>\<open>processPaper\<close> turns every exception of the body into
  the result \<^verbatim>\<open>false\<close>.\<close>

definition processPaper ::
  "builtins \<Rightarrow> 'db env \<Rightarrow> 'db \<Rightarrow> jsstring \<Rightarrow> (error + bool) \<times> 'db \<times> event list" where
  "processPaper B env db arxivId =
     (case processPaperBody B env db arxivId of
        (Inl e, db', tr) \<Rightarrow> (Inr False, db', tr)
      | (Inr success, db', tr) \<Rightarrow> (Inr success, db', tr))"

text \<open>
  \<^verbatim>\<open>processPapersAtScale\<close>.  The papers of one batch run concurrently in the
  source; the model runs them one after the other, in the order of the batch.  The
  arrays \<^verbatim>\<open>processed\<close> and \<^verbatim>\<open>failed\<close> are passed and returned.
\<close>

fun processBatch ::
  "builtins \<Rightarrow> 'db env \<Rightarrow> ArxivPaper list \<Rightarrow> 'db \<times> jsstring list \<times> jsstring list \<times> event list
     \<Rightarrow> 'db \<times> jsstring list \<times> jsstring list \<times> event list" where
  "processBatch B env [] s = s"
| "processBatch B env (paper # rest) (db, processed, failed, tr) =
     processBatch B env rest
       (case processPaper B env db (arxiv_id paper) of
          (Inr success, db1, tr1) \<Rightarrow>
            if success then (db1, processed @ [arxiv_id paper], failed, tr @ tr1)
            else (db1, processed, failed @ [arxiv_id paper], tr @ tr1)
        | (Inl error, db1, tr1) \<Rightarrow> (db1, processed, failed @ [arxiv_id paper], tr @ tr1))"

definition adaptiveDelay :: "jsstring list \<Rightarrow> jsstring list \<Rightarrow> nat" where
  "adaptiveDelay processed failed =
     (let failureRate = (of_nat (length failed) :: rat)
                          / of_nat (length processed + length failed);
          delay = (if failureRate > 3 / 10 then 5000 else 2000)
      in delay)"

function batchLoop ::
  "builtins \<Rightarrow> 'db env \<Rightarrow> ArxivPaper list \<Rightarrow> nat \<Rightarrow> 'db \<times> jsstring list \<times> jsstring list \<times> event list
     \<Rightarrow> 'db \<times> jsstring list \<times> jsstring list \<times> event list" where
  "batchLoop B env papers batchIndex s =
     (if batchIndex < length papers then
        (let batch = take BATCH_SIZE (drop batchIndex papers);
             (db1, processed1, failed1, tr1) = processBatch B env batch s;
             delay = adaptiveDelay processed1 failed1
         in if batchIndex + BATCH_SIZE < length papers
            then batchLoop B env papers (batchIndex + BATCH_SIZE)
                   (db1, processed1, failed1, tr1 @ [Sleep delay])
            else batchLoop B env papers (batchIndex + BATCH_SIZE) (db1, processed1, failed1, tr1))
      else s)"
  by pat_completeness auto
termination
  by (relation "measure (\<lambda>(B, env, papers, batchIndex, s). length papers - batchIndex)")
     (auto simp: BATCH_SIZE_def)

declare batchLoop.simps [simp del]

definition processPapersAtScale ::
  "builtins \<Rightarrow> 'db env \<Rightarrow> 'db \<Rightarrow> ArxivPaper list \<Rightarrow> jsstring list \<Rightarrow> jsstring list
     \<Rightarrow> 'db \<times> jsstring list \<times> jsstring list \<times> event list" where
  "processPapersAtScale B env db papers processed failed =
     batchLoop B env papers 0 (db, processed, failed, [])"

text \<open>The delays slept between batches, in order.\<close>

fun sleepsOf :: "event list \<Rightarrow> nat list" where
  "sleepsOf [] = []"
| "sleepsOf (Sleep ms # tr) = ms # sleepsOf tr"
| "sleepsOf (e # tr) = sleepsOf tr"

text \<open>The calls of the fetch, extract and validate pipeline, and the writes of
  single entities to the store.\<close>

fun isPipelineCall :: "event \<Rightarrow> bool" where
  "isPipelineCall (FetchPaper i) = True"
| "isPipelineCall (ExtractEntities p) = True"
| "isPipelineCall (ValidateExtraction x p) = True"
| "isPipelineCall e = False"

fun isEntityWrite :: "event \<Rightarrow> bool" where
  "isEntityWrite (InsertConcept c) = True"
| "isEntityWrite (LinkPaperConcept p c r q) = True"
| "isEntityWrite (InsertRelationship p r) = True"
| "isEntityWrite e = False"

subsection \<open>Prioritisation\<close>

definition calculateRelevanceScore :: "builtins \<Rightarrow> ArxivPaper \<Rightarrow> int" where
  "calculateRelevanceScore B paper =
     (let score0 = 0;
          content = toLowerCase B (title paper @ str '' '' @ abstract paper);
          score1 = (if includesStr content (str ''gaussian splatting'') then score0 + 3 else score0);
          score2 = (if includesStr content (str ''3dgs'') then score1 + 2 else score1);
          score3 = (if includesStr content (str ''radiance field'') then score2 + 2 else score2);
          score4 = (if includesStr content (str ''real-time'') then score3 + 1 else score3)
      in score4)"

text \<open>\<^verbatim>\<open>Array.prototype.sort(compare)\<close> is a stable sort: \<open>a\<close> comes before \<open>b\<close>
  when \<open>compare a b < 0\<close>, and elements that compare equal keep their order.\<close>

fun insertSorted :: "('a \<Rightarrow> 'a \<Rightarrow> int) \<Rightarrow> 'a \<Rightarrow> 'a list \<Rightarrow> 'a list" where
  "insertSorted compare x [] = [x]"
| "insertSorted compare x (y # ys) =
     (if compare x y \<le> 0 then x # y # ys else y # insertSorted compare x ys)"

definition sortJS :: "('a \<Rightarrow> 'a \<Rightarrow> int) \<Rightarrow> 'a list \<Rightarrow> 'a list" where
  "sortJS compare xs = foldr (insertSorted compare) xs []"

text \<open>\<^verbatim>\<open>xs.slice(0, n)\<close>: a negative \<open>n\<close> counts from the end.\<close>

definition slice0 :: "int \<Rightarrow> 'a list \<Rightarrow> 'a list" where
  "slice0 n xs = (if 0 \<le> n then take (nat n) xs else take (length xs - nat (- n)) xs)"

definition prioritizePapersByRelevance ::
  "builtins \<Rightarrow> ArxivPaper list \<Rightarrow> int \<Rightarrow> ArxivPaper list" where
  "prioritizePapersByRelevance B papers limit =
     slice0 limit
       (sortJS (\<lambda>a b. calculateRelevanceScore B b - calculateRelevanceScore B a) papers)"

section \<open>An in-memory knowledge store\<close>

text \<open>
  The database client (\<^verbatim>\<open>database/client.ts\<close>) sends each operation to a hosted
  Postgres.  The store below answers the five operations the orchestrator uses the way
  the queries of the client and the uniqueness constraints of the schema prescribe: a
  paper is found by its \<^verbatim>\<open>arxiv_id\<close>, which is unique; a concept that exists with the
  same name and category is returned and not inserted again, and concept names are
  unique; a paper-concept link is unique per paper, concept and relation; a
  relationship is unique per source paper, target and type.  A violated constraint
  makes the insert raise.  The row identifiers, which the database generates, are
  modelled as the \<^verbatim>\<open>arxiv_id\<close> of a paper and the name of a concept.  This store
  instantiates the database parameters of the orchestrator on concrete runs.
\<close>

record store =
  paperRows :: "Paper list"
  conceptRows :: "Concept list"
  paperConcepts :: "(jsstring \<times> jsstring \<times> jsstring \<times> rat) list"
  relationshipRows :: "(jsstring \<times> Relationship) list"

definition emptyStore :: store where
  "emptyStore = \<lparr>paperRows = [], conceptRows = [], paperConcepts = [], relationshipRows = []\<rparr>"

definition memFindPaperByArxivId :: "store \<Rightarrow> jsstring \<Rightarrow> error + Paper option" where
  "memFindPaperByArxivId st arxivId = Inr (find (\<lambda>p. arxiv_id p = arxivId) (paperRows st))"

definition memInsertPaper :: "store \<Rightarrow> Paper \<Rightarrow> error + jsstring \<times> store" where
  "memInsertPaper st paper =
     (if list_ex (\<lambda>p. arxiv_id p = arxiv_id paper) (paperRows st)
      then Inl (Failure ''Failed to insert paper'')
      else Inr (arxiv_id paper, st\<lparr>paperRows := paperRows st @ [paper]\<rparr>))"

definition memInsertConcept :: "store \<Rightarrow> Concept \<Rightarrow> error + jsstring \<times> store" where
  "memInsertConcept st concept =
     (if list_ex (\<lambda>c. Concept.name c = Concept.name concept \<and> category c = category concept)
           (conceptRows st)
      then Inr (Concept.name concept, st)
      else if list_ex (\<lambda>c. Concept.name c = Concept.name concept) (conceptRows st)
      then Inl (Failure ''Failed to insert concept'')
      else Inr (Concept.name concept, st\<lparr>conceptRows := conceptRows st @ [concept]\<rparr>))"

definition memLinkPaperConcept ::
  "store \<Rightarrow> jsstring \<Rightarrow> jsstring \<Rightarrow> jsstring \<Rightarrow> rat \<Rightarrow> error + store" where
  "memLinkPaperConcept st paperId conceptId relation conf =
     (if list_ex (\<lambda>(p, c, r, q). p = paperId \<and> c = conceptId \<and> r = relation) (paperConcepts st)
      then Inl (Failure ''Failed to link paper-concept'')
      else Inr (st\<lparr>paperConcepts := paperConcepts st @ [(paperId, conceptId, relation, conf)]\<rparr>))"

definition memInsertRelationship :: "store \<Rightarrow> jsstring \<Rightarrow> Relationship \<Rightarrow> error + store" where
  "memInsertRelationship st paperId relationship =
     (if list_ex (\<lambda>(p, r). p = paperId \<and> target_concept r = target_concept relationship
                          \<and> relationship_type r = relationship_type relationship)
           (relationshipRows st)
      then Inl (Failure ''Failed to insert relationship'')
      else Inr (st\<lparr>relationshipRows := relationshipRows st @ [(paperId, relationship)]\<rparr>))"

definition memoryEnv ::
  "(jsstring \<Rightarrow> error + Paper) \<Rightarrow> (Paper \<Rightarrow> error + ExtractionResult) \<Rightarrow> store env" where
  "memoryEnv fetch extract =
     \<lparr>findPaperByArxivId = memFindPaperByArxivId, insertPaper = memInsertPaper,
      insertConcept = memInsertConcept, linkPaperConcept = memLinkPaperConcept,
      insertRelationship = memInsertRelationship, fetchPaper = fetch,
      extractEntities = extract\<rparr>"

section \<open>Example inputs\<close>

definition examplePaper :: Paper where
  "examplePaper =
     \<lparr>arxiv_id = str ''2308.04079'', title = str ''3D Gaussian Splatting'', authors = [str ''Kerbl''],
      abstract = str ''Real-Time Radiance Field Rendering'', published_date = str ''2023-08-08'',
      pdf_url = str ''https://arxiv.org/pdf/2308.04079.pdf'', categories = [str ''cs.CV'']\<rparr>"

definition conceptHigh :: Concept where
  "conceptHigh = \<lparr>Concept.name = str ''Gaussian Splatting'', category = str ''method'',
                  description = str ''scene representation'', confidence = 9 / 10\<rparr>"

definition conceptLow :: Concept where
  "conceptLow = \<lparr>Concept.name = str ''Radiance Field'', category = str ''technique'',
                 description = str ''volumetric scene'', confidence = 3 / 10\<rparr>"

definition relationshipGrounded :: Relationship where
  "relationshipGrounded =
     \<lparr>relationship_type = str ''introduces'', target_concept = str ''Gaussian Splatting'',
      evidence = str ''3D Gaussian Splatting'', confidence = 8 / 10\<rparr>"

definition exampleExtraction :: ExtractionResult where
  "exampleExtraction = \<lparr>concepts = [conceptHigh, conceptLow], methods = [], datasets = [],
                        metrics = [], relationships = []\<rparr>"

definition extractionWithRelationship :: ExtractionResult where
  "extractionWithRelationship =
     \<lparr>concepts = [conceptHigh], methods = [], datasets = [], metrics = [],
      relationships = [relationshipGrounded]\<rparr>"

text \<open>
  A lowercasing for the example inputs: it agrees with \<^verbatim>\<open>String.prototype.toLowerCase\<close>
  on every string of ASCII characters and U+0130, the capital I with dot, whose
  lowercase is the two code units U+0069 U+0307.  The examples use no other code unit,
  and none converts a number to text or a text to a number.
\<close>

definition lowerUnit :: "int \<Rightarrow> jsstring" where
  "lowerUnit u = (if 65 \<le> u \<and> u \<le> 90 then [u + 32] else if u = 304 then [105, 775] else [u])"

definition sampleToLowerCase :: "jsstring \<Rightarrow> jsstring" where
  "sampleToLowerCase s = concat (map lowerUnit s)"

definition exampleBuiltins :: builtins where
  "exampleBuiltins = \<lparr>toLowerCase = sampleToLowerCase, numberToString = (\<lambda>n. str ''NaN''),
                      stringToNumber = (\<lambda>s. NaN)\<rparr>"

definition rawRelationshipTraceable :: jsval where
  "rawRelationshipTraceable =
     JObj [(str ''relationship_type'', JStr (str ''introduces'')),
           (str ''target_concept'', JStr (str ''Gaussian Splatting'')),
           (str ''evidence'', JStr (str ''3D Gaussian Splatting'')),
           (str ''confidence'', JNum (Fin (9 / 10)))]"

definition rawRelationshipFabricated :: jsval where
  "rawRelationshipFabricated =
     JObj [(str ''relationship_type'', JStr (str ''extends'')),
           (str ''target_concept'', JStr (str ''Gaussian Splatting'')),
           (str ''evidence'', JStr (str ''this text is nowhere in the paper'')),
           (str ''confidence'', JNum (Fin (9 / 10)))]"

definition rawConceptZero :: jsval where
  "rawConceptZero =
     JObj [(str ''name'', JStr (str ''Gaussian Splatting'')), (str ''category'', JStr (str ''method'')),
           (str ''description'', JStr (str ''scene representation'')), (str ''confidence'', JNum (Fin 0))]"

definition conceptMid :: Concept where
  "conceptMid = \<lparr>Concept.name = str ''Radiance Field'', category = str ''technique'',
                 description = str ''volumetric scene'', confidence = 5 / 10\<rparr>"

definition relationshipMid :: Relationship where
  "relationshipMid =
     \<lparr>relationship_type = str ''uses'', target_concept = str ''Radiance Field'',
      evidence = str ''Real-Time Radiance Field'', confidence = 6 / 10\<rparr>"

definition extractionMid :: ExtractionResult where
  "extractionMid = \<lparr>concepts = [conceptHigh, conceptMid], methods = [], datasets = [],
                    metrics = [], relationships = [relationshipGrounded, relationshipMid]\<rparr>"

text \<open>An arXiv that knows one paper, and a language model that always answers with
  the same extraction.\<close>

definition exampleFetch :: "jsstring \<Rightarrow> error + Paper" where
  "exampleFetch arxivId =
     (if arxivId = str ''2308.04079'' then Inr examplePaper else Inl (Failure ''fetch failed''))"

definition exampleExtract :: "Paper \<Rightarrow> error + ExtractionResult" where
  "exampleExtract paper = Inr extractionMid"

definition exampleEnv :: "store env" where
  "exampleEnv = memoryEnv exampleFetch exampleExtract"

text \<open>The store after the example paper was processed with the example extraction.\<close>

definition storeAfterFirstRun :: store where
  "storeAfterFirstRun =
     \<lparr>paperRows = [examplePaper], conceptRows = [conceptHigh],
      paperConcepts = [(str ''2308.04079'', str ''Gaussian Splatting'', str ''mentions'', 9 / 10)],
      relationshipRows = [(str ''2308.04079'', relationshipGrounded)]\<rparr>"

definition candidate :: "jsstring \<Rightarrow> ArxivPaper" where
  "candidate arxivId =
     \<lparr>arxiv_id = arxivId, title = str ''Gaussian scenes'', authors = [str ''C''],
      abstract = str ''Splatting'', published_date = str ''2024-02-01'',
      pdf_url = str ''https://arxiv.org/pdf/x.pdf'', categories = [str ''cs.CV'']\<rparr>"

definition sixCandidates :: "ArxivPaper list" where
  "sixCandidates = map candidate [str ''2402.00001'', str ''2402.00002'', str ''2402.00003'',
                                  str ''2402.00004'', str ''2402.00005'', str ''2402.00006'']"

definition paperSplatRealtime :: ArxivPaper where
  "paperSplatRealtime =
     \<lparr>arxiv_id = str ''2401.00001'', title = str ''Fast Gaussian Splatting'', authors = [str ''A''],
      abstract = str ''Real-time rendering'', published_date = str ''2024-01-01'',
      pdf_url = str ''https://arxiv.org/pdf/2401.00001.pdf'', categories = [str ''cs.CV'']\<rparr>"

definition paper3dgs :: ArxivPaper where
  "paper3dgs =
     \<lparr>arxiv_id = str ''2401.00002'', title = str ''Compact 3DGS'', authors = [str ''B''],
      abstract = str ''Compression of scenes'', published_date = str ''2024-01-02'',
      pdf_url = str ''https://arxiv.org/pdf/2401.00002.pdf'', categories = [str ''cs.CV'']\<rparr>"

text \<open>Boundary inputs of the validator: a name with a tab, an evidence that begins with
  U+0130, and four confidences whose sum is rounded.\<close>

definition paperTab :: Paper where
  "paperTab =
     \<lparr>arxiv_id = str ''2401.00003'', title = str ''T'', authors = [str ''D''],
      abstract = str ''ab'' @ [9] @ str ''cd'', published_date = str ''2024-01-03'',
      pdf_url = str ''https://arxiv.org/pdf/2401.00003.pdf'', categories = [str ''cs.CV'']\<rparr>"

definition conceptTab :: Concept where
  "conceptTab = \<lparr>Concept.name = str ''x ab'' @ [9] @ str ''cd'', category = str ''method'',
                 description = str ''a name with a tab'', confidence = 9 / 10\<rparr>"

definition extractionTab :: ExtractionResult where
  "extractionTab = \<lparr>concepts = [conceptTab], methods = [], datasets = [], metrics = [],
                    relationships = []\<rparr>"

definition relationshipDotted :: Relationship where
  "relationshipDotted =
     \<lparr>relationship_type = str ''uses'', target_concept = str ''Gaussian Splatting'',
      evidence = [304] @ str ''stanbul group works'', confidence = 9 / 10\<rparr>"

definition extractionDotted :: ExtractionResult where
  "extractionDotted = \<lparr>concepts = [], methods = [], datasets = [], metrics = [],
                       relationships = [relationshipDotted]\<rparr>"

definition conceptOf :: "jsstring \<Rightarrow> rat \<Rightarrow> Concept" where
  "conceptOf n q = \<lparr>Concept.name = n, category = str ''technique'',
                    description = str ''a word of the paper'', confidence = q\<rparr>"

definition extractionRounding :: ExtractionResult where
  "extractionRounding =
     \<lparr>concepts = [conceptOf (str ''Gaussian'') (6 / 10), conceptOf (str ''Splatting'') (7 / 10),
                  conceptOf (str ''Radiance'') (4 / 10), conceptOf (str ''Rendering'') (7 / 10)],
      methods = [], datasets = [], metrics = [], relationships = []\<rparr>"

definition rawRelationshipNumericType :: jsval where
  "rawRelationshipNumericType =
     JObj [(str ''relationship_type'', JNum (Fin 5)),
           (str ''target_concept'', JStr (str ''Gaussian Splatting'')),
           (str ''evidence'', JStr (str ''3D Gaussian Splatting'')),
           (str ''confidence'', JNum (Fin (9 / 10)))]"

text \<open>A language model whose answer cannot be parsed.\<close>

definition failingExtract :: "Paper \<Rightarrow> error + ExtractionResult" where
  "failingExtract paper = Inl (Failure ''Failed to parse AI extraction'')"

definition failingExtractEnv :: "store env" where
  "failingExtractEnv = memoryEnv exampleFetch failingExtract"

section \<open>Properties of the validator\<close>

lemma conceptLoop_validConcepts:
  "validConcepts (conceptLoop B paper cs s) =
     validConcepts s @ filter (\<lambda>c. validateConcept B c paper) cs"
  by (induction cs arbitrary: s) simp_all

lemma conceptLoop_validRelationships:
  "validRelationships (conceptLoop B paper cs s) = validRelationships s"
  by (induction cs arbitrary: s) simp_all

lemma relationshipLoop_validRelationships:
  "validRelationships (relationshipLoop B paper rs s) =
     validRelationships s @ filter (\<lambda>r. validateRelationship B r paper) rs"
  by (induction rs arbitrary: s) simp_all

lemma relationshipLoop_validConcepts:
  "validConcepts (relationshipLoop B paper rs s) = validConcepts s"
  by (induction rs arbitrary: s) simp_all

lemma validateExtraction_concepts:
  "concepts (extraction (validateExtraction B ex paper)) =
     filter (\<lambda>c. validateConcept B c paper) (concepts ex)"
  by (simp add: validateExtraction_def Let_def conceptLoop_validConcepts
      relationshipLoop_validConcepts)

lemma validateExtraction_relationships:
  "relationships (extraction (validateExtraction B ex paper)) =
     filter (\<lambda>r. validateRelationship B r paper) (relationships ex)"
  by (simp add: validateExtraction_def Let_def relationshipLoop_validRelationships
      conceptLoop_validRelationships)

lemma conceptLoop_overallConfidence:
  "overallConfidence (conceptLoop B paper cs s) =
     foldl (\<lambda>acc q. addNumber acc (toDouble q)) (overallConfidence s)
       (map Concept.confidence (filter (\<lambda>c. validateConcept B c paper) cs))"
  by (induction cs arbitrary: s) simp_all

lemma conceptLoop_validEntityCount:
  "validEntityCount (conceptLoop B paper cs s) =
     validEntityCount s + length (filter (\<lambda>c. validateConcept B c paper) cs)"
  by (induction cs arbitrary: s) simp_all

lemma relationshipLoop_overallConfidence:
  "overallConfidence (relationshipLoop B paper rs s) =
     foldl (\<lambda>acc q. addNumber acc (toDouble q)) (overallConfidence s)
       (map Relationship.confidence (filter (\<lambda>r. validateRelationship B r paper) rs))"
  by (induction rs arbitrary: s) simp_all

lemma relationshipLoop_validEntityCount:
  "validEntityCount (relationshipLoop B paper rs s) =
     validEntityCount s + length (filter (\<lambda>r. validateRelationship B r paper) rs)"
  by (induction rs arbitrary: s) simp_all

lemma validateExtraction_confidence:
  "ValidationResult.confidence (validateExtraction B extr paper) =
     (let confs = map Concept.confidence (filter (\<lambda>c. validateConcept B c paper) (concepts extr))
                  @ map Relationship.confidence
                      (filter (\<lambda>r. validateRelationship B r paper) (relationships extr))
      in if confs = [] then Fin 0
         else divNumber (foldl (\<lambda>acc q. addNumber acc (toDouble q)) (Fin 0) confs)
                (length confs))"
  by (simp add: validateExtraction_def Let_def conceptLoop_overallConfidence
      conceptLoop_validEntityCount relationshipLoop_overallConfidence
      relationshipLoop_validEntityCount)

lemma validateExtraction_isValid:
  "isValid (validateExtraction B extr paper) =
     (filter (\<lambda>c. validateConcept B c paper) (concepts extr) \<noteq> []
      \<and> geNumber (ValidationResult.confidence (validateExtraction B extr paper))
            (toDouble (6 / 10)))"
  by (simp add: validateExtraction_def Let_def conceptLoop_validConcepts
      relationshipLoop_validConcepts)

text \<open>
  Claim C1, as stated, fails: for the name \<^verbatim>\<open>x ab<TAB>cd\<close> and the abstract
  \<^verbatim>\<open>ab<TAB>cd\<close> the concept is retained, its lowercased name does not occur in the
  text, and the tokens of the name that white space separates are \<^verbatim>\<open>x\<close>, \<^verbatim>\<open>ab\<close>
  and \<^verbatim>\<open>cd\<close>, none longer than 3.
\<close>

theorem tab_piece_retained:
  "concepts (extraction (validateExtraction exampleBuiltins extractionTab paperTab))
     = [conceptTab]
   \<and> \<not> includesStr (toLowerCase exampleBuiltins (title paperTab @ str '' '' @ abstract paperTab))
         (toLowerCase exampleBuiltins (Concept.name conceptTab))
   \<and> whitespaceTokens (Concept.name conceptTab) = [str ''x'', str ''ab'', str ''cd'']
   \<and> whitespaceTokens (toLowerCase exampleBuiltins (Concept.name conceptTab))
       = [str ''x'', str ''ab'', str ''cd'']"
  by code_simp

text \<open>
  Claim C1, amended.  Every concept that \<^verbatim>\<open>validateExtraction\<close> retains has confidence
  at least 0.4, a name of 2 to 100 code units, and a relevance signal: its lowercased
  name occurs in the lowercased title and abstract, or one of the pieces of the
  lowercased name between single spaces, as \<^verbatim>\<open>split(' ')\<close> gives them, is longer than
  3 code units and occurs there.
\<close>

theorem retained_concepts_pass_checks:
  assumes "c \<in> set (concepts (extraction (validateExtraction B extr paper)))"
  shows "Concept.confidence c \<ge> 4 / 10
         \<and> 2 \<le> length (Concept.name c) \<and> length (Concept.name c) \<le> 100
         \<and> (includesStr (toLowerCase B (title paper @ str '' '' @ abstract paper))
                (toLowerCase B (Concept.name c))
            \<or> (\<exists>t \<in> set (splitStr (toLowerCase B (Concept.name c)) 32).
                  length t > 3
                  \<and> includesStr (toLowerCase B (title paper @ str '' '' @ abstract paper)) t))"
proof -
  from assms have v: "validateConcept B c paper"
    by (simp add: validateExtraction_concepts)
  then have conf: "Concept.confidence c \<ge> 4 / 10"
    and len: "2 \<le> length (Concept.name c) \<and> length (Concept.name c) \<le> 100"
    and rel: "isConceptRelevant B c paper"
    by (auto simp: validateConcept_def split: if_splits)
  from rel have "includesStr (toLowerCase B (title paper @ str '' '' @ abstract paper))
                (toLowerCase B (Concept.name c))
            \<or> (\<exists>t \<in> set (splitStr (toLowerCase B (Concept.name c)) 32).
                  length t > 3
                  \<and> includesStr (toLowerCase B (title paper @ str '' '' @ abstract paper)) t)"
    by (auto simp: isConceptRelevant_def hasSemanticOverlap_def paperContent_def Let_def
        list_ex_iff)
  with conf len show ?thesis by blast
qed

theorem retained_concepts_pass_checks_witness:
  "conceptHigh
     \<in> set (concepts (extraction (validateExtraction exampleBuiltins exampleExtraction examplePaper)))
   \<and> Concept.confidence conceptHigh \<ge> 4 / 10
   \<and> 2 \<le> length (Concept.name conceptHigh) \<and> length (Concept.name conceptHigh) \<le> 100
   \<and> includesStr (toLowerCase exampleBuiltins (title examplePaper @ str '' '' @ abstract examplePaper))
        (toLowerCase exampleBuiltins (Concept.name conceptHigh))"
proof -
  have h: "conceptHigh
             \<in> set (concepts (extraction
                      (validateExtraction exampleBuiltins exampleExtraction examplePaper)))"
    by code_simp
  have i: "includesStr (toLowerCase exampleBuiltins (title examplePaper @ str '' '' @ abstract examplePaper))
        (toLowerCase exampleBuiltins (Concept.name conceptHigh))"
    by code_simp
  from retained_concepts_pass_checks [OF h] h i show ?thesis by blast
qed

text \<open>
  Claim C2, as stated, fails: an evidence of 20 code units that begins with U+0130 has a
  lowercased form of 21 code units, so it is retained although it does not occur in the
  text and is not longer than 20.
\<close>

theorem lengthened_evidence_retained:
  "relationships (extraction (validateExtraction exampleBuiltins extractionDotted examplePaper))
     = [relationshipDotted]
   \<and> length (evidence relationshipDotted) = 20
   \<and> \<not> includesStr (toLowerCase exampleBuiltins (title examplePaper @ str '' '' @ abstract examplePaper))
         (toLowerCase exampleBuiltins (evidence relationshipDotted))"
  by code_simp

text \<open>
  Claim C2, amended.  Every relationship that \<^verbatim>\<open>validateExtraction\<close> retains has
  confidence at least 0.5 and evidence of at least 10 code units, and its lowercased
  evidence occurs in the lowercased title and abstract or is itself longer than 20
  code units.
\<close>

theorem retained_relationships_pass_checks:
  assumes "r \<in> set (relationships (extraction (validateExtraction B extr paper)))"
  shows "Relationship.confidence r \<ge> 5 / 10
         \<and> length (evidence r) \<ge> 10
         \<and> (includesStr (toLowerCase B (title paper @ str '' '' @ abstract paper))
                (toLowerCase B (evidence r))
            \<or> length (toLowerCase B (evidence r)) > 20)"
proof -
  from assms have v: "validateRelationship B r paper"
    by (simp add: validateExtraction_relationships)
  then show ?thesis
    by (auto simp: validateRelationship_def isRelationshipSensible_def paperContent_def
        Let_def split: if_splits)
qed

theorem retained_relationships_pass_checks_witness:
  "relationshipGrounded
     \<in> set (relationships (extraction
              (validateExtraction exampleBuiltins extractionWithRelationship examplePaper)))
   \<and> Relationship.confidence relationshipGrounded \<ge> 5 / 10
   \<and> length (evidence relationshipGrounded) \<ge> 10
   \<and> includesStr (toLowerCase exampleBuiltins (title examplePaper @ str '' '' @ abstract examplePaper))
        (toLowerCase exampleBuiltins (evidence relationshipGrounded))"
proof -
  have h: "relationshipGrounded
             \<in> set (relationships
                     (extraction (validateExtraction exampleBuiltins extractionWithRelationship
                                    examplePaper)))"
    by code_simp
  have i: "includesStr (toLowerCase exampleBuiltins (title examplePaper @ str '' '' @ abstract examplePaper))
        (toLowerCase exampleBuiltins (evidence relationshipGrounded))"
    by code_simp
  from retained_relationships_pass_checks [OF h] h i show ?thesis by blast
qed

text \<open>The doubles nearest to 0.3, 0.4, 0.6, 0.7 and 0.9, and the sums and the quotient
  of the example with four confidences.\<close>

lemma toDouble_04: "toDouble (4 / 10) = Fin (3602879701896397 / 9007199254740992)"
  by code_simp

lemma toDouble_06: "toDouble (6 / 10) = Fin (5404319552844595 / 9007199254740992)"
  by code_simp

lemma toDouble_07: "toDouble (7 / 10) = Fin (6305039478318694 / 9007199254740992)"
  by code_simp

lemma toDouble_09: "toDouble (9 / 10) = Fin (8106479329266893 / 9007199254740992)"
  by code_simp

lemma sum_step_1:
  "addNumber (Fin 0) (Fin (5404319552844595 / 9007199254740992))
     = Fin (5404319552844595 / 9007199254740992)"
  by code_simp

lemma sum_step_2:
  "addNumber (Fin (5404319552844595 / 9007199254740992))
             (Fin (6305039478318694 / 9007199254740992))
     = Fin (5854679515581644 / 4503599627370496)"
  by code_simp

lemma sum_step_3:
  "addNumber (Fin (5854679515581644 / 4503599627370496))
             (Fin (3602879701896397 / 9007199254740992))
     = Fin (7656119366529842 / 4503599627370496)"
  by code_simp

lemma sum_step_4:
  "addNumber (Fin (7656119366529842 / 4503599627370496))
             (Fin (6305039478318694 / 9007199254740992))
     = Fin (5404319552844594 / 2251799813685248)"
  by code_simp

lemma quotient_step:
  "divNumber (Fin (5404319552844594 / 2251799813685248)) 4
     = Fin (5404319552844594 / 9007199254740992)"
  by code_simp

lemma single_09:
  "divNumber (addNumber (Fin 0) (toDouble (9 / 10))) 1 = toDouble (9 / 10)"
  by code_simp

lemma ge_09_06: "geNumber (toDouble (9 / 10)) (toDouble (6 / 10))"
  by code_simp

text \<open>
  Claim C3, as stated, fails: for four retained concepts of confidence 0.6, 0.7, 0.4 and
  0.7 the arithmetic mean is 0.6, but the sum and the quotient are rounded, the
  aggregate the code returns is 0.5999999999999999, one unit in the last place below
  the double 0.6, and the result is not valid.
\<close>

theorem rounded_mean_below_threshold:
  "concepts (extraction (validateExtraction exampleBuiltins extractionRounding examplePaper))
     = concepts extractionRounding
   \<and> map Concept.confidence (concepts extractionRounding) = [6 / 10, 7 / 10, 4 / 10, 7 / 10]
   \<and> relationships (extraction (validateExtraction exampleBuiltins extractionRounding examplePaper))
       = []
   \<and> (6 / 10 + 7 / 10 + 4 / 10 + 7 / 10) / 4 = (6 / 10 :: rat)
   \<and> toDouble (6 / 10) = Fin (5404319552844595 / 9007199254740992)
   \<and> ValidationResult.confidence (validateExtraction exampleBuiltins extractionRounding examplePaper)
       = Fin (5404319552844594 / 9007199254740992)
   \<and> \<not> isValid (validateExtraction exampleBuiltins extractionRounding examplePaper)"
proof -
  have kept: "filter (\<lambda>c. validateConcept exampleBuiltins c examplePaper)
                (concepts extractionRounding) = concepts extractionRounding"
    by code_simp
  have confs: "map Concept.confidence (concepts extractionRounding)
                 = [6 / 10, 7 / 10, 4 / 10, 7 / 10]"
    by (simp add: extractionRounding_def conceptOf_def)
  have rels: "relationships extractionRounding = []"
    by (simp add: extractionRounding_def)
  have sum: "foldl (\<lambda>acc q. addNumber acc (toDouble q)) (Fin 0) [6 / 10, 7 / 10, 4 / 10, 7 / 10]
               = Fin (5404319552844594 / 2251799813685248)"
    unfolding foldl.simps toDouble_06 toDouble_07 toDouble_04
      sum_step_1 sum_step_2 sum_step_3 sum_step_4 ..
  have len: "length [6 / 10, 7 / 10, 4 / 10, 7 / 10 :: rat] = 4"
    by simp
  have conf: "ValidationResult.confidence
                (validateExtraction exampleBuiltins extractionRounding examplePaper)
                = Fin (5404319552844594 / 9007199254740992)"
    unfolding validateExtraction_confidence kept confs rels Let_def
    by (simp only: filter.simps list.map append_Nil2 list.distinct if_False sum len
        quotient_step)
  have invalid: "\<not> isValid (validateExtraction exampleBuiltins extractionRounding examplePaper)"
    unfolding validateExtraction_isValid conf toDouble_06
    by (simp add: geNumber_def)
  have mean: "(6 / 10 + 7 / 10 + 4 / 10 + 7 / 10) / 4 = (6 / 10 :: rat)"
    by simp
  from kept rels confs mean conf invalid toDouble_06 show ?thesis
    by (simp add: validateExtraction_concepts validateExtraction_relationships)
qed

text \<open>
  Claim C3, amended.  The aggregate confidence that \<^verbatim>\<open>validateExtraction\<close> returns
  is 0 when nothing is retained; otherwise it is the sum of the confidences of the
  retained concepts, in order, and then of the retained relationships, added one by
  one in double arithmetic from 0, divided in double arithmetic by their number.  The
  result is valid exactly when at least one concept is retained and that aggregate is
  at least the double 0.6.  For two concepts of confidence 0.9 and 0.3 and no
  relationships, where the 0.9 concept passes the name-length and relevance checks,
  the aggregate is the double 0.9 and the result is valid.
\<close>

theorem aggregate_confidence_and_validity:
  "(let r = validateExtraction B extr paper;
        confs = map Concept.confidence (concepts (extraction r))
                @ map Relationship.confidence (relationships (extraction r))
    in ValidationResult.confidence r
         = (if confs = [] then Fin 0
            else divNumber (foldl (\<lambda>acc q. addNumber acc (toDouble q)) (Fin 0) confs)
                   (length confs))
       \<and> (isValid r \<longleftrightarrow> concepts (extraction r) \<noteq> []
                         \<and> geNumber (ValidationResult.confidence r) (toDouble (6 / 10))))
   \<and> (Concept.confidence c1 = 9 / 10 \<and> Concept.confidence c2 = 3 / 10
       \<and> 2 \<le> length (Concept.name c1) \<and> length (Concept.name c1) \<le> 100
       \<and> isConceptRelevant B c1 paper
       \<and> (concepts extr = [c1, c2] \<or> concepts extr = [c2, c1]) \<and> relationships extr = []
       \<longrightarrow> ValidationResult.confidence (validateExtraction B extr paper) = toDouble (9 / 10)
           \<and> isValid (validateExtraction B extr paper))"
proof (rule conjI)
  show "(let r = validateExtraction B extr paper;
          confs = map Concept.confidence (concepts (extraction r))
                  @ map Relationship.confidence (relationships (extraction r))
      in ValidationResult.confidence r
           = (if confs = [] then Fin 0
              else divNumber (foldl (\<lambda>acc q. addNumber acc (toDouble q)) (Fin 0) confs)
                     (length confs))
         \<and> (isValid r \<longleftrightarrow> concepts (extraction r) \<noteq> []
                           \<and> geNumber (ValidationResult.confidence r) (toDouble (6 / 10))))"
    unfolding Let_def
    using validateExtraction_confidence [of B extr paper]
      validateExtraction_isValid [of B extr paper]
    by (simp add: validateExtraction_concepts validateExtraction_relationships Let_def)
next
  show "Concept.confidence c1 = 9 / 10 \<and> Concept.confidence c2 = 3 / 10
       \<and> 2 \<le> length (Concept.name c1) \<and> length (Concept.name c1) \<le> 100
       \<and> isConceptRelevant B c1 paper
       \<and> (concepts extr = [c1, c2] \<or> concepts extr = [c2, c1]) \<and> relationships extr = []
       \<longrightarrow> ValidationResult.confidence (validateExtraction B extr paper) = toDouble (9 / 10)
           \<and> isValid (validateExtraction B extr paper)"
  proof (rule impI)
    assume h: "Concept.confidence c1 = 9 / 10 \<and> Concept.confidence c2 = 3 / 10
         \<and> 2 \<le> length (Concept.name c1) \<and> length (Concept.name c1) \<le> 100
         \<and> isConceptRelevant B c1 paper
         \<and> (concepts extr = [c1, c2] \<or> concepts extr = [c2, c1]) \<and> relationships extr = []"
    have v1: "validateConcept B c1 paper"
      using h by (simp add: validateConcept_def)
    have v2: "\<not> validateConcept B c2 paper"
      using h by (simp add: validateConcept_def)
    have kept: "filter (\<lambda>c. validateConcept B c paper) (concepts extr) = [c1]"
      using h v1 v2 by auto
    have rels: "relationships extr = []" and c1: "Concept.confidence c1 = 9 / 10"
      using h by simp_all
    have conf: "ValidationResult.confidence (validateExtraction B extr paper) = toDouble (9 / 10)"
      unfolding validateExtraction_confidence kept rels Let_def
      by (simp only: filter.simps list.map append_Nil2 list.distinct if_False foldl.simps c1
          list.size length_Cons One_nat_def [symmetric] add_0 single_09)
    have "isValid (validateExtraction B extr paper)"
      unfolding validateExtraction_isValid conf kept
      using ge_09_06 by simp
    with conf show "ValidationResult.confidence (validateExtraction B extr paper) = toDouble (9 / 10)
             \<and> isValid (validateExtraction B extr paper)"
      by simp
  qed
qed

theorem aggregate_confidence_and_validity_witness:
  "Concept.confidence conceptHigh = 9 / 10 \<and> Concept.confidence conceptLow = 3 / 10
   \<and> isConceptRelevant exampleBuiltins conceptHigh examplePaper
   \<and> concepts exampleExtraction = [conceptHigh, conceptLow]
   \<and> relationships exampleExtraction = []
   \<and> ValidationResult.confidence (validateExtraction exampleBuiltins exampleExtraction examplePaper)
       = Fin (8106479329266893 / 9007199254740992)
   \<and> isValid (validateExtraction exampleBuiltins exampleExtraction examplePaper)"
proof -
  have h: "Concept.confidence conceptHigh = 9 / 10 \<and> Concept.confidence conceptLow = 3 / 10
       \<and> 2 \<le> length (Concept.name conceptHigh) \<and> length (Concept.name conceptHigh) \<le> 100
       \<and> isConceptRelevant exampleBuiltins conceptHigh examplePaper
       \<and> (concepts exampleExtraction = [conceptHigh, conceptLow]
          \<or> concepts exampleExtraction = [conceptLow, conceptHigh])
       \<and> relationships exampleExtraction = []"
    by code_simp
  have c: "concepts exampleExtraction = [conceptHigh, conceptLow]"
    by (simp add: exampleExtraction_def)
  note t = aggregate_confidence_and_validity
         [where B = exampleBuiltins and extr = exampleExtraction and paper = examplePaper
            and ?c1.0 = conceptHigh and ?c2.0 = conceptLow]
  from t [THEN conjunct2, THEN mp, OF h] h c toDouble_09
  show ?thesis by simp
qed

section \<open>Properties of the parse boundary\<close>

lemma clamp_Fin: "Math_min (Fin 1) (Math_max (Fin 0) (Fin x)) = Fin (min 1 (max 0 x))"
  by (simp add: Math_min_def Math_max_def min_def max_def)

lemma clamp_PosInf: "Math_min (Fin 1) (Math_max (Fin 0) PosInf) = Fin 1"
  by (simp add: Math_min_def Math_max_def)

lemma clamp_NegInf: "Math_min (Fin 1) (Math_max (Fin 0) NegInf) = Fin 0"
  by (simp add: Math_min_def Math_max_def)

lemma coerceConfidence_cases:
  "coerceConfidence B v =
     (case toNumber B v of
        Inl e \<Rightarrow> Inl e
      | Inr n \<Rightarrow>
          Inr (case n of
                 NaN \<Rightarrow> Fin (7 / 10)
               | NegInf \<Rightarrow> Fin 0
               | Fin x \<Rightarrow> (if x = 0 then Fin (7 / 10) else Fin (min 1 (max 0 x)))
               | PosInf \<Rightarrow> Fin 1))"
proof (cases "toNumber B v")
  case (Inl e)
  then show ?thesis by (simp add: coerceConfidence_def)
next
  case (Inr n)
  then show ?thesis
    by (cases n) (simp_all add: coerceConfidence_def Let_def clamp_Fin clamp_PosInf clamp_NegInf)
qed

text \<open>A coerced confidence is a finite number between 0 and 1, whatever the raw
  value.\<close>

lemma coerceConfidence_finite:
  assumes "coerceConfidence B v = Inr n"
  shows "n = Fin (finiteValue n) \<and> 0 \<le> finiteValue n \<and> finiteValue n \<le> 1"
proof (cases "toNumber B v")
  case (Inl e)
  with assms show ?thesis by (simp add: coerceConfidence_cases)
next
  case (Inr m)
  with assms show ?thesis by (cases m) (auto simp add: coerceConfidence_cases)
qed

text \<open>The coercion raises exactly when \<^verbatim>\<open>Number\<close> does.\<close>

lemma coerceConfidence_raises:
  "(\<exists>e. coerceConfidence B v = Inl e) \<longleftrightarrow> (\<exists>e. toNumber B v = Inl e)"
  by (cases "toNumber B v") (simp_all add: coerceConfidence_cases)

text \<open>A raw confidence that is a finite number other than 0 is clamped into the
  interval from 0 to 1.\<close>

lemma coerceConfidence_nonzero:
  "x \<noteq> 0 \<Longrightarrow> coerceConfidence B (JNum (Fin x)) = Inr (Fin (min 1 (max 0 x)))"
  by (simp add: coerceConfidence_cases)

lemma coerceConfidence_absent:
  "coerceConfidence B JUndefined = Inr (Fin (7 / 10))"
  by (simp add: coerceConfidence_cases)

lemma mapE_raises:
  "(\<exists>e. mapE f xs = Inl e) \<longleftrightarrow> (\<exists>x \<in> set xs. \<exists>e. f x = Inl e)"
  by (induction xs) (auto split: sum.splits)

lemma mapE_returns:
  "mapE f xs = Inr ys \<Longrightarrow> map f xs = map Inr ys"
  by (induction xs arbitrary: ys) (auto split: sum.splits)

lemma validateRelationshipType_raises:
  "(\<exists>e. validateRelationshipType B v = Inl e) \<longleftrightarrow> (\<forall>t. v \<noteq> JStr t)"
  by (cases v) (simp_all add: validateRelationshipType_def)

lemma coerceRelationship_raises:
  "(\<exists>e. coerceRelationship B rel = Inl e) \<longleftrightarrow>
     (\<forall>t. getProp rel (str ''relationship_type'') \<noteq> JStr t)
     \<or> (\<exists>e. toStringJS B (getProp rel (str ''target_concept'')) = Inl e)
     \<or> (\<exists>e. toStringJS B (getProp rel (str ''evidence'')) = Inl e)
     \<or> (\<exists>e. toNumber B (getProp rel (str ''confidence'')) = Inl e)"
  using validateRelationshipType_raises [of B "getProp rel (str ''relationship_type'')"]
    coerceConfidence_raises [of B "getProp rel (str ''confidence'')"]
  by (auto simp add: coerceRelationship_def split: sum.splits)

lemma coerceRelationship_evidence:
  "coerceRelationship B rel = Inr r
   \<Longrightarrow> \<exists>ev. toStringJS B (getProp rel (str ''evidence'')) = Inr ev \<and> evidence r = trim ev"
  by (auto simp add: coerceRelationship_def split: sum.splits)

text \<open>
  Claim C4, as stated, fails: a relationship with every required field whose evidence
  is longer than 20 characters is dropped when the first 20 characters of the evidence
  do not occur in the paper.
\<close>

theorem long_untraceable_evidence_dropped:
  "hasRelationshipFields rawRelationshipFabricated
   \<and> getProp rawRelationshipFabricated (str ''evidence'')
       = JStr (str ''this text is nowhere in the paper'')
   \<and> length (str ''this text is nowhere in the paper'') > 20
   \<and> validateRelationships exampleBuiltins [rawRelationshipFabricated] examplePaper = Inr []"
  by code_simp

text \<open>
  Claim C4, amended.  \<^verbatim>\<open>validateRelationships\<close> raises, and retains nothing, exactly
  when one of the raw relationships with all required fields cannot be coerced: its
  relationship type is not a string, or \<^verbatim>\<open>toString\<close> of its target concept or of its
  evidence raises, or \<^verbatim>\<open>Number\<close> of its confidence raises.  When the function returns,
  every raw relationship with all required fields was coerced, and of the coerced
  relationships it retains exactly the ones whose lowercased evidence, cut to its
  first 20 code units, occurs in the lowercased title and abstract.  The evidence of a
  coerced relationship is the trimmed text of the raw evidence.  The length of the
  evidence plays no part.
\<close>

theorem parse_filter_keeps_traceable_evidence:
  "((\<exists>e. validateRelationships B rels paper = Inl e)
      \<longleftrightarrow> (\<exists>rel \<in> set rels. hasRelationshipFields rel
             \<and> ((\<forall>t. getProp rel (str ''relationship_type'') \<noteq> JStr t)
                \<or> (\<exists>e. toStringJS B (getProp rel (str ''target_concept'')) = Inl e)
                \<or> (\<exists>e. toStringJS B (getProp rel (str ''evidence'')) = Inl e)
                \<or> (\<exists>e. toNumber B (getProp rel (str ''confidence'')) = Inl e))))
   \<and> (validateRelationships B rels paper = Inr out
       \<longrightarrow> (\<exists>rs. map (coerceRelationship B) (filter hasRelationshipFields rels) = map Inr rs
                \<and> out = filter (\<lambda>r. includesStr
                                       (toLowerCase B (title paper @ str '' '' @ abstract paper))
                                       (take 20 (toLowerCase B (evidence r)))) rs))
   \<and> (coerceRelationship B rel = Inr r
       \<longrightarrow> (\<exists>ev. toStringJS B (getProp rel (str ''evidence'')) = Inr ev
                \<and> evidence r = trim ev))"
proof (intro conjI)
  have "(\<exists>e. validateRelationships B rels paper = Inl e)
          \<longleftrightarrow> (\<exists>e. mapE (coerceRelationship B) (filter hasRelationshipFields rels) = Inl e)"
    by (simp add: validateRelationships_def split: sum.splits)
  also have "\<dots> \<longleftrightarrow> (\<exists>rel \<in> set rels. hasRelationshipFields rel
                         \<and> (\<exists>e. coerceRelationship B rel = Inl e))"
    by (simp add: mapE_raises) blast
  finally show "(\<exists>e. validateRelationships B rels paper = Inl e)
      \<longleftrightarrow> (\<exists>rel \<in> set rels. hasRelationshipFields rel
             \<and> ((\<forall>t. getProp rel (str ''relationship_type'') \<noteq> JStr t)
                \<or> (\<exists>e. toStringJS B (getProp rel (str ''target_concept'')) = Inl e)
                \<or> (\<exists>e. toStringJS B (getProp rel (str ''evidence'')) = Inl e)
                \<or> (\<exists>e. toNumber B (getProp rel (str ''confidence'')) = Inl e)))"
    by (simp only: coerceRelationship_raises)
next
  show "validateRelationships B rels paper = Inr out
       \<longrightarrow> (\<exists>rs. map (coerceRelationship B) (filter hasRelationshipFields rels) = map Inr rs
                \<and> out = filter (\<lambda>r. includesStr
                                       (toLowerCase B (title paper @ str '' '' @ abstract paper))
                                       (take 20 (toLowerCase B (evidence r)))) rs)"
  proof (rule impI)
    assume v: "validateRelationships B rels paper = Inr out"
    then obtain rs where
      m: "mapE (coerceRelationship B) (filter hasRelationshipFields rels) = Inr rs"
      and o: "out = filter (\<lambda>rel. isEvidenceInPaper B (evidence rel) paper) rs"
      by (auto simp add: validateRelationships_def split: sum.splits)
    from mapE_returns [OF m] o
    show "\<exists>rs. map (coerceRelationship B) (filter hasRelationshipFields rels) = map Inr rs
                \<and> out = filter (\<lambda>r. includesStr
                                       (toLowerCase B (title paper @ str '' '' @ abstract paper))
                                       (take 20 (toLowerCase B (evidence r)))) rs"
      by (auto simp add: isEvidenceInPaper_def)
  qed
next
  show "coerceRelationship B rel = Inr r
       \<longrightarrow> (\<exists>ev. toStringJS B (getProp rel (str ''evidence'')) = Inr ev
                \<and> evidence r = trim ev)"
    using coerceRelationship_evidence [of B rel r] by blast
qed

theorem parse_filter_keeps_traceable_evidence_witness:
  "validateRelationships exampleBuiltins
        [rawRelationshipTraceable, rawRelationshipFabricated] examplePaper
      = Inr [\<lparr>relationship_type = str ''introduces'', target_concept = str ''Gaussian Splatting'',
              evidence = str ''3D Gaussian Splatting'', confidence = 9 / 10\<rparr>]
   \<and> (\<exists>rs. map (coerceRelationship exampleBuiltins)
               (filter hasRelationshipFields [rawRelationshipTraceable, rawRelationshipFabricated])
             = map Inr rs
          \<and> [\<lparr>relationship_type = str ''introduces'', target_concept = str ''Gaussian Splatting'',
               evidence = str ''3D Gaussian Splatting'', confidence = 9 / 10\<rparr>]
            = filter (\<lambda>r. includesStr
                            (toLowerCase exampleBuiltins
                               (title examplePaper @ str '' '' @ abstract examplePaper))
                            (take 20 (toLowerCase exampleBuiltins (evidence r)))) rs)
   \<and> hasRelationshipFields rawRelationshipNumericType
   \<and> getProp rawRelationshipNumericType (str ''relationship_type'') = JNum (Fin 5)
   \<and> validateRelationships exampleBuiltins
        [rawRelationshipTraceable, rawRelationshipNumericType] examplePaper = Inl TypeError
   \<and> coerceRelationship exampleBuiltins rawRelationshipTraceable
       = Inr \<lparr>relationship_type = str ''introduces'', target_concept = str ''Gaussian Splatting'',
              evidence = str ''3D Gaussian Splatting'', confidence = 9 / 10\<rparr>
   \<and> (\<exists>ev. toStringJS exampleBuiltins (getProp rawRelationshipTraceable (str ''evidence''))
              = Inr ev
          \<and> str ''3D Gaussian Splatting'' = trim ev)"
proof -
  let ?r = "\<lparr>relationship_type = str ''introduces'', target_concept = str ''Gaussian Splatting'',
              evidence = str ''3D Gaussian Splatting'', confidence = 9 / 10\<rparr>"
  have v: "validateRelationships exampleBuiltins
             [rawRelationshipTraceable, rawRelationshipFabricated] examplePaper = Inr [?r]"
    by code_simp
  have c: "coerceRelationship exampleBuiltins rawRelationshipTraceable = Inr ?r"
    by code_simp
  have f: "hasRelationshipFields rawRelationshipNumericType"
    by code_simp
  have g: "getProp rawRelationshipNumericType (str ''relationship_type'') = JNum (Fin 5)"
    by code_simp
  have n: "\<forall>t. getProp rawRelationshipNumericType (str ''relationship_type'') \<noteq> JStr t"
    by (simp add: g)
  note t1 = parse_filter_keeps_traceable_evidence
    [where B = exampleBuiltins and paper = examplePaper
       and rels = "[rawRelationshipTraceable, rawRelationshipFabricated]"
       and out = "[?r]" and rel = rawRelationshipTraceable and r = ?r]
  note t2 = parse_filter_keeps_traceable_evidence
    [where B = exampleBuiltins and paper = examplePaper
       and rels = "[rawRelationshipTraceable, rawRelationshipNumericType]"
       and out = "[]" and rel = rawRelationshipTraceable and r = ?r]
  have a: "\<exists>rs. map (coerceRelationship exampleBuiltins)
               (filter hasRelationshipFields [rawRelationshipTraceable, rawRelationshipFabricated])
             = map Inr rs
          \<and> [?r]
            = filter (\<lambda>r. includesStr
                            (toLowerCase exampleBuiltins
                               (title examplePaper @ str '' '' @ abstract examplePaper))
                            (take 20 (toLowerCase exampleBuiltins (evidence r)))) rs"
    using t1 [THEN conjunct2, THEN conjunct1, THEN mp, OF v] .
  have b: "\<exists>ev. toStringJS exampleBuiltins (getProp rawRelationshipTraceable (str ''evidence''))
              = Inr ev
          \<and> evidence ?r = trim ev"
    using t1 [THEN conjunct2, THEN conjunct2, THEN mp, OF c] .
  have d: "\<exists>e. validateRelationships exampleBuiltins
              [rawRelationshipTraceable, rawRelationshipNumericType] examplePaper = Inl e"
    using t2 [THEN conjunct1] f n by simp
  have x: "validateRelationships exampleBuiltins
             [rawRelationshipTraceable, rawRelationshipNumericType] examplePaper = Inl TypeError"
    by code_simp
  from v a f g d x c b show ?thesis
    by simp
qed

text \<open>
  Claim C5.  The code departs from the claim at a raw confidence of 0: the number 0 is
  falsy, so \<^verbatim>\<open>Number(0) || 0.7\<close> is 0.7, and the concept gets the default 0.7 instead
  of 0.
\<close>

theorem zero_confidence_replaced_by_default:
  "coerceConfidence B (JNum (Fin 0)) = Inr (Fin (7 / 10))
   \<and> validateConcepts B [rawConceptZero]
       = Inr [\<lparr>Concept.name = str ''Gaussian Splatting'',
               category = (if toLowerCase B (str ''method'')
                                \<in> set [str ''method'', str ''technique'', str ''problem'',
                                        str ''domain'', str ''application'', str ''framework'']
                           then toLowerCase B (str ''method'') else str ''technique''),
               description = str ''scene representation'', confidence = 7 / 10\<rparr>]
   \<and> validateConcepts exampleBuiltins [rawConceptZero]
       = Inr [\<lparr>Concept.name = str ''Gaussian Splatting'', category = str ''method'',
               description = str ''scene representation'', confidence = 7 / 10\<rparr>]"
proof (intro conjI)
  show "coerceConfidence B (JNum (Fin 0)) = Inr (Fin (7 / 10))"
    by (simp add: coerceConfidence_cases)
  have f: "hasConceptFields rawConceptZero"
    by code_simp
  have p: "getProp rawConceptZero (str ''name'') = JStr (str ''Gaussian Splatting'')"
    "getProp rawConceptZero (str ''category'') = JStr (str ''method'')"
    "getProp rawConceptZero (str ''description'') = JStr (str ''scene representation'')"
    "getProp rawConceptZero (str ''confidence'') = JNum (Fin 0)"
    by code_simp+
  have t: "trim (str ''Gaussian Splatting'') = str ''Gaussian Splatting''"
    "trim (str ''scene representation'') = str ''scene representation''"
    by code_simp+
  have l: "length (str ''Gaussian Splatting'') > 1"
    by (simp add: str_def)
  show "validateConcepts B [rawConceptZero]
       = Inr [\<lparr>Concept.name = str ''Gaussian Splatting'',
               category = (if toLowerCase B (str ''method'')
                                \<in> set [str ''method'', str ''technique'', str ''problem'',
                                        str ''domain'', str ''application'', str ''framework'']
                           then toLowerCase B (str ''method'') else str ''technique''),
               description = str ''scene representation'', confidence = 7 / 10\<rparr>]"
    using l
    by (simp add: validateConcepts_def f p t coerceConcept_def validateCategory_def
        coerceConfidence_cases Let_def del: set_simps)
  show "validateConcepts exampleBuiltins [rawConceptZero]
       = Inr [\<lparr>Concept.name = str ''Gaussian Splatting'', category = str ''method'',
               description = str ''scene representation'', confidence = 7 / 10\<rparr>]"
    by code_simp
qed

section \<open>Properties of the store writer\<close>

lemma storeConceptsLoop_filter:
  "storeConceptsLoop env paperId cs s
     = storeConceptsLoop env paperId (filter (\<lambda>c. Concept.confidence c \<ge> 7 / 10) cs) s"
proof (induction cs arbitrary: s)
  case Nil
  then show ?case by simp
next
  case (Cons c cs)
  obtain db n tr where s: "s = (db, n, tr)" by (cases s)
  show ?case unfolding s using Cons.IH by simp
qed

lemma storeRelationshipsLoop_filter:
  "storeRelationshipsLoop env paperId rs s
     = storeRelationshipsLoop env paperId
         (filter (\<lambda>r. Relationship.confidence r \<ge> 7 / 10) rs) s"
proof (induction rs arbitrary: s)
  case Nil
  then show ?case by simp
next
  case (Cons r rs)
  obtain db n tr where s: "s = (db, n, tr)" by (cases s)
  show ?case unfolding s using Cons.IH by simp
qed

lemma storeConceptsLoop_trace:
  "\<exists>db' n' tr'. storeConceptsLoop env paperId cs (db, n, tr) = (db', n', tr @ tr')
     \<and> (\<forall>e \<in> set tr'. \<exists>c \<in> set cs. Concept.confidence c \<ge> 7 / 10
            \<and> (e = InsertConcept c
                \<or> (\<exists>cid. e = LinkPaperConcept paperId cid (str ''mentions'') (Concept.confidence c))))"
proof (induction cs arbitrary: db n tr)
  case Nil
  then show ?case by simp
next
  case (Cons c cs)
  show ?case
  proof (cases "Concept.confidence c \<ge> 7 / 10")
    case False
    with Cons.IH [of db n tr] show ?thesis by auto
  next
    case True
    show ?thesis
    proof (cases "insertConcept env db c")
      case (Inl e)
      with True Cons.IH [of db n "tr @ [InsertConcept c]"] show ?thesis
        by auto
    next
      case (Inr res)
      obtain cid db1 where res: "res = (cid, db1)" by (cases res)
      show ?thesis
      proof (cases "linkPaperConcept env db1 paperId cid (str ''mentions'') (Concept.confidence c)")
        case (Inl e)
        with True Inr res
          Cons.IH [of db1 n "tr @ [InsertConcept c, LinkPaperConcept paperId cid (str ''mentions'') (Concept.confidence c)]"]
        show ?thesis by auto
      next
        case (Inr db2)
        with True \<open>insertConcept env db c = Inr res\<close> res
          Cons.IH [of db2 "n + 1" "tr @ [InsertConcept c, LinkPaperConcept paperId cid (str ''mentions'') (Concept.confidence c)]"]
        show ?thesis by auto
      qed
    qed
  qed
qed

lemma storeRelationshipsLoop_trace:
  "\<exists>db' n' tr'. storeRelationshipsLoop env paperId rs (db, n, tr) = (db', n', tr @ tr')
     \<and> (\<forall>e \<in> set tr'. \<exists>r \<in> set rs. Relationship.confidence r \<ge> 7 / 10
            \<and> e = InsertRelationship paperId r)"
proof (induction rs arbitrary: db n tr)
  case Nil
  then show ?case by simp
next
  case (Cons r rs)
  show ?case
  proof (cases "Relationship.confidence r \<ge> 7 / 10")
    case False
    with Cons.IH [of db n tr] show ?thesis by auto
  next
    case True
    show ?thesis
    proof (cases "insertRelationship env db paperId r")
      case (Inl e)
      with True Cons.IH [of db n "tr @ [InsertRelationship paperId r]"] show ?thesis
        by auto
    next
      case (Inr db1)
      with True Cons.IH [of db1 "n + 1" "tr @ [InsertRelationship paperId r]"] show ?thesis
        by auto
    qed
  qed
qed

lemma storeKnowledgeGraph_trace:
  assumes "e \<in> set (snd (snd (storeKnowledgeGraph env db paperId extr)))"
  shows "(\<exists>c \<in> set (concepts extr). Concept.confidence c \<ge> 7 / 10
            \<and> (e = InsertConcept c
                \<or> (\<exists>cid. e = LinkPaperConcept paperId cid (str ''mentions'') (Concept.confidence c))))
         \<or> (\<exists>r \<in> set (relationships extr). Relationship.confidence r \<ge> 7 / 10
            \<and> e = InsertRelationship paperId r)"
proof -
  obtain db1 n1 tr1 where
    c: "storeConceptsLoop env paperId (concepts extr) (db, 0, []) = (db1, n1, [] @ tr1)"
    and c_events: "\<forall>e \<in> set tr1. \<exists>c \<in> set (concepts extr). Concept.confidence c \<ge> 7 / 10
            \<and> (e = InsertConcept c
                \<or> (\<exists>cid. e = LinkPaperConcept paperId cid (str ''mentions'') (Concept.confidence c)))"
    using storeConceptsLoop_trace [of env paperId "concepts extr" db 0 "[]"] by blast
  obtain db2 n2 tr2 where
    r: "storeRelationshipsLoop env paperId (relationships extr) (db1, n1, tr1) = (db2, n2, tr1 @ tr2)"
    and r_events: "\<forall>e \<in> set tr2. \<exists>r \<in> set (relationships extr). Relationship.confidence r \<ge> 7 / 10
            \<and> e = InsertRelationship paperId r"
    using storeRelationshipsLoop_trace [of env paperId "relationships extr" db1 n1 tr1] by blast
  from c r have "snd (snd (storeKnowledgeGraph env db paperId extr)) = tr1 @ tr2"
    by (simp add: storeKnowledgeGraph_def)
  with assms have "e \<in> set tr1 \<or> e \<in> set tr2" by simp
  with c_events r_events show ?thesis by blast
qed

lemma storeKnowledgeGraph_filter:
  "storeKnowledgeGraph env db paperId extr
     = storeKnowledgeGraph env db paperId
         (extr\<lparr>concepts := filter (\<lambda>c. Concept.confidence c \<ge> 7 / 10) (concepts extr),
               relationships := filter (\<lambda>r. Relationship.confidence r \<ge> 7 / 10)
                                  (relationships extr)\<rparr>)"
  using storeConceptsLoop_filter [of env paperId "concepts extr"]
    storeRelationshipsLoop_filter [of env paperId "relationships extr"]
  by (simp add: storeKnowledgeGraph_def)

lemma storeKnowledgeGraph_entity_writes:
  "e \<in> set (snd (snd (storeKnowledgeGraph env db paperId extr))) \<Longrightarrow> isEntityWrite e"
  using storeKnowledgeGraph_trace [of e env db paperId extr] by auto

lemma concept_below_floor_not_written:
  assumes "Concept.confidence c < 7 / 10"
  shows "InsertConcept c \<notin> set (snd (snd (storeKnowledgeGraph env db paperId extr)))"
    and "LinkPaperConcept paperId cid relation (Concept.confidence c)
           \<notin> set (snd (snd (storeKnowledgeGraph env db paperId extr)))"
proof -
  show "InsertConcept c \<notin> set (snd (snd (storeKnowledgeGraph env db paperId extr)))"
  proof
    assume "InsertConcept c \<in> set (snd (snd (storeKnowledgeGraph env db paperId extr)))"
    from storeKnowledgeGraph_trace [OF this] assms show False by auto
  qed
  show "LinkPaperConcept paperId cid relation (Concept.confidence c)
           \<notin> set (snd (snd (storeKnowledgeGraph env db paperId extr)))"
  proof
    assume "LinkPaperConcept paperId cid relation (Concept.confidence c)
              \<in> set (snd (snd (storeKnowledgeGraph env db paperId extr)))"
    from storeKnowledgeGraph_trace [OF this] assms show False by auto
  qed
qed

lemma relationship_below_floor_not_written:
  assumes "Relationship.confidence r < 7 / 10"
  shows "InsertRelationship paperId r
           \<notin> set (snd (snd (storeKnowledgeGraph env db paperId extr)))"
proof
  assume "InsertRelationship paperId r
            \<in> set (snd (snd (storeKnowledgeGraph env db paperId extr)))"
  from storeKnowledgeGraph_trace [OF this] assms show False by auto
qed

text \<open>
  Claim C10.  \<^verbatim>\<open>storeKnowledgeGraph\<close> does with an extraction exactly what it does
  with the same extraction cut down to the concepts and relationships of confidence at
  least 0.7; every call it makes is a concept insert or a paper-concept link for a
  concept of confidence at least 0.7, or a relationship insert for a relationship of
  confidence at least 0.7.  So a concept that passed validation with confidence in
  [0.4, 0.7), or a relationship that passed with confidence in [0.5, 0.7), is written
  nowhere.
\<close>

theorem storage_floor:
  "storeKnowledgeGraph env db paperId extr
     = storeKnowledgeGraph env db paperId
         (extr\<lparr>concepts := filter (\<lambda>c. Concept.confidence c \<ge> 7 / 10) (concepts extr),
               relationships := filter (\<lambda>r. Relationship.confidence r \<ge> 7 / 10)
                                  (relationships extr)\<rparr>)
   \<and> (\<forall>e \<in> set (snd (snd (storeKnowledgeGraph env db paperId extr))).
         (\<exists>c \<in> set (concepts extr). Concept.confidence c \<ge> 7 / 10
            \<and> (e = InsertConcept c
                \<or> (\<exists>cid. e = LinkPaperConcept paperId cid (str ''mentions'') (Concept.confidence c))))
         \<or> (\<exists>r \<in> set (relationships extr). Relationship.confidence r \<ge> 7 / 10
            \<and> e = InsertRelationship paperId r))
   \<and> (c \<in> set (concepts (extraction (validateExtraction B raw paper)))
        \<and> Concept.confidence c < 7 / 10
       \<longrightarrow> 4 / 10 \<le> Concept.confidence c
           \<and> InsertConcept c
               \<notin> set (snd (snd (storeKnowledgeGraph env db paperId
                                  (extraction (validateExtraction B raw paper)))))
           \<and> (\<forall>cid relation. LinkPaperConcept paperId cid relation (Concept.confidence c)
               \<notin> set (snd (snd (storeKnowledgeGraph env db paperId
                                  (extraction (validateExtraction B raw paper)))))))
   \<and> (r \<in> set (relationships (extraction (validateExtraction B raw paper)))
        \<and> Relationship.confidence r < 7 / 10
       \<longrightarrow> 5 / 10 \<le> Relationship.confidence r
           \<and> InsertRelationship paperId r
               \<notin> set (snd (snd (storeKnowledgeGraph env db paperId
                                  (extraction (validateExtraction B raw paper))))))"
proof (intro conjI)
  show "storeKnowledgeGraph env db paperId extr
       = storeKnowledgeGraph env db paperId
           (extr\<lparr>concepts := filter (\<lambda>c. Concept.confidence c \<ge> 7 / 10) (concepts extr),
                 relationships := filter (\<lambda>r. Relationship.confidence r \<ge> 7 / 10)
                                    (relationships extr)\<rparr>)"
    by (rule storeKnowledgeGraph_filter)
next
  show "\<forall>e \<in> set (snd (snd (storeKnowledgeGraph env db paperId extr))).
         (\<exists>c \<in> set (concepts extr). Concept.confidence c \<ge> 7 / 10
            \<and> (e = InsertConcept c
                \<or> (\<exists>cid. e = LinkPaperConcept paperId cid (str ''mentions'') (Concept.confidence c))))
         \<or> (\<exists>r \<in> set (relationships extr). Relationship.confidence r \<ge> 7 / 10
            \<and> e = InsertRelationship paperId r)"
    by (intro ballI) (rule storeKnowledgeGraph_trace)
next
  show "c \<in> set (concepts (extraction (validateExtraction B raw paper)))
        \<and> Concept.confidence c < 7 / 10
       \<longrightarrow> 4 / 10 \<le> Concept.confidence c
           \<and> InsertConcept c
               \<notin> set (snd (snd (storeKnowledgeGraph env db paperId
                                  (extraction (validateExtraction B raw paper)))))
           \<and> (\<forall>cid relation. LinkPaperConcept paperId cid relation (Concept.confidence c)
               \<notin> set (snd (snd (storeKnowledgeGraph env db paperId
                                  (extraction (validateExtraction B raw paper))))))"
  proof (intro impI, elim conjE)
    assume kept: "c \<in> set (concepts (extraction (validateExtraction B raw paper)))"
      and below: "Concept.confidence c < 7 / 10"
    from kept have "validateConcept B c paper"
      by (simp add: validateExtraction_concepts)
    then have "4 / 10 \<le> Concept.confidence c"
      by (auto simp: validateConcept_def split: if_splits)
    with concept_below_floor_not_written
           [OF below, where env = env and db = db and paperId = paperId
              and extr = "extraction (validateExtraction B raw paper)"]
    show "4 / 10 \<le> Concept.confidence c
           \<and> InsertConcept c
               \<notin> set (snd (snd (storeKnowledgeGraph env db paperId
                                  (extraction (validateExtraction B raw paper)))))
           \<and> (\<forall>cid relation. LinkPaperConcept paperId cid relation (Concept.confidence c)
               \<notin> set (snd (snd (storeKnowledgeGraph env db paperId
                                  (extraction (validateExtraction B raw paper))))))"
      by simp
  qed
next
  show "r \<in> set (relationships (extraction (validateExtraction B raw paper)))
        \<and> Relationship.confidence r < 7 / 10
       \<longrightarrow> 5 / 10 \<le> Relationship.confidence r
           \<and> InsertRelationship paperId r
               \<notin> set (snd (snd (storeKnowledgeGraph env db paperId
                                  (extraction (validateExtraction B raw paper)))))"
  proof (intro impI, elim conjE)
    assume kept: "r \<in> set (relationships (extraction (validateExtraction B raw paper)))"
      and below: "Relationship.confidence r < 7 / 10"
    from kept have "validateRelationship B r paper"
      by (simp add: validateExtraction_relationships)
    then have "5 / 10 \<le> Relationship.confidence r"
      by (auto simp: validateRelationship_def split: if_splits)
    with relationship_below_floor_not_written
           [OF below, where env = env and db = db and paperId = paperId
              and extr = "extraction (validateExtraction B raw paper)"]
    show "5 / 10 \<le> Relationship.confidence r
           \<and> InsertRelationship paperId r
               \<notin> set (snd (snd (storeKnowledgeGraph env db paperId
                                  (extraction (validateExtraction B raw paper)))))"
      by simp
  qed
qed

theorem storage_floor_witness:
  "conceptMid \<in> set (concepts (extraction (validateExtraction exampleBuiltins extractionMid examplePaper)))
   \<and> Concept.confidence conceptMid < 7 / 10
   \<and> 4 / 10 \<le> Concept.confidence conceptMid
   \<and> InsertConcept conceptMid
        \<notin> set (snd (snd (storeKnowledgeGraph exampleEnv emptyStore (str ''2308.04079'')
                           (extraction (validateExtraction exampleBuiltins extractionMid examplePaper)))))
   \<and> relationshipMid
        \<in> set (relationships (extraction (validateExtraction exampleBuiltins extractionMid examplePaper)))
   \<and> Relationship.confidence relationshipMid < 7 / 10
   \<and> 5 / 10 \<le> Relationship.confidence relationshipMid
   \<and> InsertRelationship (str ''2308.04079'') relationshipMid
        \<notin> set (snd (snd (storeKnowledgeGraph exampleEnv emptyStore (str ''2308.04079'')
                           (extraction (validateExtraction exampleBuiltins extractionMid examplePaper)))))"
proof -
  have h: "conceptMid \<in> set (concepts (extraction (validateExtraction exampleBuiltins extractionMid examplePaper)))
           \<and> Concept.confidence conceptMid < 7 / 10"
    unfolding validateExtraction_concepts by code_simp
  have g: "relationshipMid
             \<in> set (relationships (extraction (validateExtraction exampleBuiltins extractionMid examplePaper)))
           \<and> Relationship.confidence relationshipMid < 7 / 10"
    unfolding validateExtraction_relationships by code_simp
  note t = storage_floor [where B = exampleBuiltins and env = exampleEnv and db = emptyStore
      and paperId = "str ''2308.04079''" and c = conceptMid and raw = extractionMid
      and paper = examplePaper and extr = extractionMid and r = relationshipMid]
  from t [THEN conjunct2, THEN conjunct2, THEN conjunct1, THEN mp, OF h]
    t [THEN conjunct2, THEN conjunct2, THEN conjunct2, THEN mp, OF g] h g
  show ?thesis by simp
qed

section \<open>Properties of the orchestrator\<close>


lemma processPaper_existing:
  "findPaperByArxivId env db arxivId = Inr (Some existing)
   \<Longrightarrow> processPaper B env db arxivId = (Inr True, db, [FindPaperByArxivId arxivId])"
  by (simp add: processPaper_def processPaperBody_def)

lemma filter_entity_writes:
  "(\<And>e. e \<in> set tr \<Longrightarrow> isEntityWrite e) \<Longrightarrow> filter isPipelineCall tr = []"
proof (induction tr)
  case Nil
  then show ?case by simp
next
  case (Cons e tr)
  then have "isEntityWrite e" by simp
  then have "\<not> isPipelineCall e" by (cases e) simp_all
  with Cons show ?case by simp
qed

text \<open>A property of the store that every successful write of a concept, a link or a
  relationship preserves holds after \<^verbatim>\<open>storeKnowledgeGraph\<close> when it held before.\<close>

lemma storeConceptsLoop_preserves:
  assumes "\<And>d c cid d'. insertConcept env d c = Inr (cid, d') \<Longrightarrow> P d \<Longrightarrow> P d'"
    and "\<And>d p c rel q d'. linkPaperConcept env d p c rel q = Inr d' \<Longrightarrow> P d \<Longrightarrow> P d'"
  shows "P (fst s) \<Longrightarrow> P (fst (storeConceptsLoop env paperId cs s))"
proof (induction cs arbitrary: s)
  case Nil
  then show ?case by simp
next
  case (Cons c cs)
  obtain db n tr where s: "s = (db, n, tr)" by (cases s)
  with Cons.prems have p: "P db" by simp
  have inserted: "P d'" if "insertConcept env db c = Inr (cid, d')" for cid d'
    using assms(1) [OF that p] .
  have linked: "P d''"
    if "insertConcept env db c = Inr (cid, d')"
      and "linkPaperConcept env d' paperId cid (str ''mentions'') (Concept.confidence c) = Inr d''"
    for cid d' d''
    using assms(2) [OF that(2) inserted [OF that(1)]] .
  show ?case
    unfolding s storeConceptsLoop.simps
    by (rule Cons.IH) (auto split: sum.splits simp add: p inserted linked)
qed

lemma storeRelationshipsLoop_preserves:
  assumes "\<And>d p r d'. insertRelationship env d p r = Inr d' \<Longrightarrow> P d \<Longrightarrow> P d'"
  shows "P (fst s) \<Longrightarrow> P (fst (storeRelationshipsLoop env paperId rs s))"
proof (induction rs arbitrary: s)
  case Nil
  then show ?case by simp
next
  case (Cons r rs)
  obtain db n tr where s: "s = (db, n, tr)" by (cases s)
  with Cons.prems have p: "P db" by simp
  show ?case
    unfolding s storeRelationshipsLoop.simps
    by (rule Cons.IH) (auto split: sum.splits intro: p assms)
qed

lemma storeKnowledgeGraph_preserves:
  assumes "\<And>d c cid d'. insertConcept env d c = Inr (cid, d') \<Longrightarrow> P d \<Longrightarrow> P d'"
    and "\<And>d p c rel q d'. linkPaperConcept env d p c rel q = Inr d' \<Longrightarrow> P d \<Longrightarrow> P d'"
    and "\<And>d p r d'. insertRelationship env d p r = Inr d' \<Longrightarrow> P d \<Longrightarrow> P d'"
    and "P db"
  shows "P (fst (storeKnowledgeGraph env db paperId extr))"
  unfolding storeKnowledgeGraph_def
  by (rule storeRelationshipsLoop_preserves [where P = P, OF assms(3)], assumption+,
      rule storeConceptsLoop_preserves [where P = P, OF assms(1) assms(2)], assumption+)
     (simp add: assms(4))

lemma processPaper_integrates:
  assumes "findPaperByArxivId env db arxivId = Inr None"
    and "fetchPaper env arxivId = Inr paper"
    and "isRelevantToGaussianSplatting B paper"
    and "insertPaper env db paper = Inr (paperId, db0)"
    and "extractEntities env paper = Inr extr"
  shows "processPaper B env db arxivId
           = (Inr True,
              fst (storeKnowledgeGraph env db0 paperId
                     (extraction (validateExtraction B extr paper))),
              [FindPaperByArxivId arxivId, FetchPaper arxivId, InsertPaper paper,
               ExtractEntities paper, ValidateExtraction extr paper]
              @ snd (snd (storeKnowledgeGraph env db0 paperId
                            (extraction (validateExtraction B extr paper))))
              @ [AnalyzeCrossPaperRelationships paperId])"
  using assms
  by (simp add: processPaper_def processPaperBody_def Let_def split: prod.splits)

lemma processPaper_extraction_raises:
  assumes "findPaperByArxivId env db arxivId = Inr None"
    and "fetchPaper env arxivId = Inr paper"
    and "isRelevantToGaussianSplatting B paper"
    and "insertPaper env db paper = Inr (paperId, db0)"
    and "extractEntities env paper = Inl e"
  shows "processPaper B env db arxivId
           = (Inr False, db0,
              [FindPaperByArxivId arxivId, FetchPaper arxivId, InsertPaper paper,
               ExtractEntities paper])"
  using assms
  by (simp add: processPaper_def processPaperBody_def)

lemma processPaper_fails_early:
  assumes "findPaperByArxivId env db arxivId = Inr None"
    and "(\<exists>e. fetchPaper env arxivId = Inl e)
         \<or> (\<exists>paper. fetchPaper env arxivId = Inr paper
               \<and> (\<not> isRelevantToGaussianSplatting B paper
                   \<or> (\<exists>e. insertPaper env db paper = Inl e)))"
  shows "fst (processPaper B env db arxivId) = Inr False
         \<and> fst (snd (processPaper B env db arxivId)) = db
         \<and> filter isPipelineCall (snd (snd (processPaper B env db arxivId)))
             = [FetchPaper arxivId]"
  using assms
  by (auto simp add: processPaper_def processPaperBody_def)

text \<open>
  Claim C6, as stated, fails in its second half.  When the extraction raises after the
  paper row was inserted, the first call returns false, and the second call finds the
  row and returns true: over the two calls no extraction succeeded and the validation
  never ran.  When the fetch raises, the first call stores nothing, and the second call
  fetches again: over the two calls the fetch ran twice.
\<close>

theorem retry_after_failed_extraction_skips_pipeline:
  "processPaper exampleBuiltins failingExtractEnv emptyStore (str ''2308.04079'')
     = (Inr False, emptyStore\<lparr>paperRows := [examplePaper]\<rparr>,
        [FindPaperByArxivId (str ''2308.04079''), FetchPaper (str ''2308.04079''),
         InsertPaper examplePaper, ExtractEntities examplePaper])
   \<and> extractEntities failingExtractEnv examplePaper
       = Inl (Failure ''Failed to parse AI extraction'')
   \<and> processPaper exampleBuiltins failingExtractEnv (emptyStore\<lparr>paperRows := [examplePaper]\<rparr>)
        (str ''2308.04079'')
     = (Inr True, emptyStore\<lparr>paperRows := [examplePaper]\<rparr>,
        [FindPaperByArxivId (str ''2308.04079'')])
   \<and> filter isPipelineCall
        (snd (snd (processPaper exampleBuiltins failingExtractEnv emptyStore (str ''2308.04079'')))
         @ snd (snd (processPaper exampleBuiltins failingExtractEnv
                       (emptyStore\<lparr>paperRows := [examplePaper]\<rparr>) (str ''2308.04079''))))
     = [FetchPaper (str ''2308.04079''), ExtractEntities examplePaper]
   \<and> processPaper exampleBuiltins exampleEnv emptyStore (str ''0000.00000'')
     = (Inr False, emptyStore,
        [FindPaperByArxivId (str ''0000.00000''), FetchPaper (str ''0000.00000'')])
   \<and> filter isPipelineCall
        (snd (snd (processPaper exampleBuiltins exampleEnv emptyStore (str ''0000.00000'')))
         @ snd (snd (processPaper exampleBuiltins exampleEnv emptyStore (str ''0000.00000''))))
     = [FetchPaper (str ''0000.00000''), FetchPaper (str ''0000.00000'')]"
  by code_simp

text \<open>
  Claim C6, amended.  When the lookup finds a paper with the identifier,
  \<^verbatim>\<open>processPaper\<close> returns true, makes no call but the lookup and leaves the store as
  it was.  Let the lookup find nothing, the fetch return a relevant paper, the insert
  of the paper row succeed, the lookup find the paper afterwards, and no successful
  write of a concept, a link or a relationship change what the lookup finds.  When
  the extraction succeeds, the first call returns true after one fetch, one
  extraction and one validation, and the second call returns true with no call but
  the lookup and the store unchanged.  When the extraction raises, the first call
  returns false with the paper row stored, and the second call returns true with no
  call but the lookup: the validation never runs.  A first call in which the fetch
  raises, the paper is not relevant or the insert of the paper row raises leaves the
  store as it was, and the fetch is its only call of the pipeline.
\<close>

theorem already_present_short_circuit:
  "(findPaperByArxivId env db arxivId = Inr (Some existing)
      \<longrightarrow> processPaper B env db arxivId = (Inr True, db, [FindPaperByArxivId arxivId]))
   \<and> (findPaperByArxivId env db arxivId = Inr None
        \<and> fetchPaper env arxivId = Inr paper
        \<and> isRelevantToGaussianSplatting B paper
        \<and> insertPaper env db paper = Inr (paperId, db0)
        \<and> findPaperByArxivId env db0 arxivId = Inr (Some stored)
        \<and> (\<forall>d c cid d'. insertConcept env d c = Inr (cid, d')
              \<longrightarrow> findPaperByArxivId env d' arxivId = findPaperByArxivId env d arxivId)
        \<and> (\<forall>d p c rel q d'. linkPaperConcept env d p c rel q = Inr d'
              \<longrightarrow> findPaperByArxivId env d' arxivId = findPaperByArxivId env d arxivId)
        \<and> (\<forall>d p r d'. insertRelationship env d p r = Inr d'
              \<longrightarrow> findPaperByArxivId env d' arxivId = findPaperByArxivId env d arxivId)
      \<longrightarrow> (extractEntities env paper = Inr extr
             \<longrightarrow> (let written = storeKnowledgeGraph env db0 paperId
                                  (extraction (validateExtraction B extr paper));
                       db1 = fst written;
                       tr1 = [FindPaperByArxivId arxivId, FetchPaper arxivId, InsertPaper paper,
                              ExtractEntities paper, ValidateExtraction extr paper]
                             @ snd (snd written) @ [AnalyzeCrossPaperRelationships paperId]
                   in processPaper B env db arxivId = (Inr True, db1, tr1)
                      \<and> processPaper B env db1 arxivId
                          = (Inr True, db1, [FindPaperByArxivId arxivId])
                      \<and> filter isPipelineCall (tr1 @ [FindPaperByArxivId arxivId])
                          = [FetchPaper arxivId, ExtractEntities paper,
                             ValidateExtraction extr paper]))
          \<and> (extractEntities env paper = Inl e
             \<longrightarrow> processPaper B env db arxivId
                   = (Inr False, db0,
                      [FindPaperByArxivId arxivId, FetchPaper arxivId, InsertPaper paper,
                       ExtractEntities paper])
                 \<and> processPaper B env db0 arxivId
                     = (Inr True, db0, [FindPaperByArxivId arxivId])))
   \<and> (findPaperByArxivId env db arxivId = Inr None
        \<and> ((\<exists>e. fetchPaper env arxivId = Inl e)
            \<or> (\<exists>paper. fetchPaper env arxivId = Inr paper
                  \<and> (\<not> isRelevantToGaussianSplatting B paper
                      \<or> (\<exists>e. insertPaper env db paper = Inl e))))
      \<longrightarrow> fst (processPaper B env db arxivId) = Inr False
          \<and> fst (snd (processPaper B env db arxivId)) = db
          \<and> filter isPipelineCall (snd (snd (processPaper B env db arxivId)))
              = [FetchPaper arxivId])"
proof (intro conjI)
  show "findPaperByArxivId env db arxivId = Inr (Some existing)
      \<longrightarrow> processPaper B env db arxivId = (Inr True, db, [FindPaperByArxivId arxivId])"
    by (simp add: processPaper_existing)
next
  show "findPaperByArxivId env db arxivId = Inr None
        \<and> ((\<exists>e. fetchPaper env arxivId = Inl e)
            \<or> (\<exists>paper. fetchPaper env arxivId = Inr paper
                  \<and> (\<not> isRelevantToGaussianSplatting B paper
                      \<or> (\<exists>e. insertPaper env db paper = Inl e))))
      \<longrightarrow> fst (processPaper B env db arxivId) = Inr False
          \<and> fst (snd (processPaper B env db arxivId)) = db
          \<and> filter isPipelineCall (snd (snd (processPaper B env db arxivId)))
              = [FetchPaper arxivId]"
    using processPaper_fails_early [of env db arxivId B] by blast
next
  show "findPaperByArxivId env db arxivId = Inr None
        \<and> fetchPaper env arxivId = Inr paper
        \<and> isRelevantToGaussianSplatting B paper
        \<and> insertPaper env db paper = Inr (paperId, db0)
        \<and> findPaperByArxivId env db0 arxivId = Inr (Some stored)
        \<and> (\<forall>d c cid d'. insertConcept env d c = Inr (cid, d')
              \<longrightarrow> findPaperByArxivId env d' arxivId = findPaperByArxivId env d arxivId)
        \<and> (\<forall>d p c rel q d'. linkPaperConcept env d p c rel q = Inr d'
              \<longrightarrow> findPaperByArxivId env d' arxivId = findPaperByArxivId env d arxivId)
        \<and> (\<forall>d p r d'. insertRelationship env d p r = Inr d'
              \<longrightarrow> findPaperByArxivId env d' arxivId = findPaperByArxivId env d arxivId)
      \<longrightarrow> (extractEntities env paper = Inr extr
             \<longrightarrow> (let written = storeKnowledgeGraph env db0 paperId
                                  (extraction (validateExtraction B extr paper));
                       db1 = fst written;
                       tr1 = [FindPaperByArxivId arxivId, FetchPaper arxivId, InsertPaper paper,
                              ExtractEntities paper, ValidateExtraction extr paper]
                             @ snd (snd written) @ [AnalyzeCrossPaperRelationships paperId]
                   in processPaper B env db arxivId = (Inr True, db1, tr1)
                      \<and> processPaper B env db1 arxivId
                          = (Inr True, db1, [FindPaperByArxivId arxivId])
                      \<and> filter isPipelineCall (tr1 @ [FindPaperByArxivId arxivId])
                          = [FetchPaper arxivId, ExtractEntities paper,
                             ValidateExtraction extr paper]))
          \<and> (extractEntities env paper = Inl e
             \<longrightarrow> processPaper B env db arxivId
                   = (Inr False, db0,
                      [FindPaperByArxivId arxivId, FetchPaper arxivId, InsertPaper paper,
                       ExtractEntities paper])
                 \<and> processPaper B env db0 arxivId
                     = (Inr True, db0, [FindPaperByArxivId arxivId]))"
  proof (rule impI)
    assume h: "findPaperByArxivId env db arxivId = Inr None
        \<and> fetchPaper env arxivId = Inr paper
        \<and> isRelevantToGaussianSplatting B paper
        \<and> insertPaper env db paper = Inr (paperId, db0)
        \<and> findPaperByArxivId env db0 arxivId = Inr (Some stored)
        \<and> (\<forall>d c cid d'. insertConcept env d c = Inr (cid, d')
              \<longrightarrow> findPaperByArxivId env d' arxivId = findPaperByArxivId env d arxivId)
        \<and> (\<forall>d p c rel q d'. linkPaperConcept env d p c rel q = Inr d'
              \<longrightarrow> findPaperByArxivId env d' arxivId = findPaperByArxivId env d arxivId)
        \<and> (\<forall>d p r d'. insertRelationship env d p r = Inr d'
              \<longrightarrow> findPaperByArxivId env d' arxivId = findPaperByArxivId env d arxivId)"
    then have absent: "findPaperByArxivId env db arxivId = Inr None"
      and fetched: "fetchPaper env arxivId = Inr paper"
      and relevant: "isRelevantToGaussianSplatting B paper"
      and inserted: "insertPaper env db paper = Inr (paperId, db0)"
      and found: "findPaperByArxivId env db0 arxivId = Inr (Some stored)"
      and frameC: "\<And>d c cid d'. insertConcept env d c = Inr (cid, d')
              \<Longrightarrow> findPaperByArxivId env d' arxivId = findPaperByArxivId env d arxivId"
      and frameL: "\<And>d p c rel q d'. linkPaperConcept env d p c rel q = Inr d'
              \<Longrightarrow> findPaperByArxivId env d' arxivId = findPaperByArxivId env d arxivId"
      and frameR: "\<And>d p r d'. insertRelationship env d p r = Inr d'
              \<Longrightarrow> findPaperByArxivId env d' arxivId = findPaperByArxivId env d arxivId"
      by simp_all
    have succeeds: "(let written = storeKnowledgeGraph env db0 paperId
                                  (extraction (validateExtraction B extr paper));
                       db1 = fst written;
                       tr1 = [FindPaperByArxivId arxivId, FetchPaper arxivId, InsertPaper paper,
                              ExtractEntities paper, ValidateExtraction extr paper]
                             @ snd (snd written) @ [AnalyzeCrossPaperRelationships paperId]
                   in processPaper B env db arxivId = (Inr True, db1, tr1)
                      \<and> processPaper B env db1 arxivId
                          = (Inr True, db1, [FindPaperByArxivId arxivId])
                      \<and> filter isPipelineCall (tr1 @ [FindPaperByArxivId arxivId])
                          = [FetchPaper arxivId, ExtractEntities paper,
                             ValidateExtraction extr paper])"
      if extracted: "extractEntities env paper = Inr extr"
    proof -
      let ?st = "storeKnowledgeGraph env db0 paperId (extraction (validateExtraction B extr paper))"
      have first: "processPaper B env db arxivId
           = (Inr True, fst ?st,
              [FindPaperByArxivId arxivId, FetchPaper arxivId, InsertPaper paper,
               ExtractEntities paper, ValidateExtraction extr paper]
              @ snd (snd ?st) @ [AnalyzeCrossPaperRelationships paperId])"
        by (rule processPaper_integrates [OF absent fetched relevant inserted extracted])
      have "findPaperByArxivId env (fst ?st) arxivId = Inr (Some stored)"
        by (rule storeKnowledgeGraph_preserves
              [where P = "\<lambda>d. findPaperByArxivId env d arxivId = Inr (Some stored)"])
           (simp_all add: frameC frameL frameR found)
      then have second: "processPaper B env (fst ?st) arxivId
                           = (Inr True, fst ?st, [FindPaperByArxivId arxivId])"
        by (rule processPaper_existing)
      have "filter isPipelineCall (snd (snd ?st)) = []"
        using storeKnowledgeGraph_entity_writes by (rule filter_entity_writes)
      then have calls: "filter isPipelineCall
              (([FindPaperByArxivId arxivId, FetchPaper arxivId, InsertPaper paper,
                 ExtractEntities paper, ValidateExtraction extr paper]
                @ snd (snd ?st) @ [AnalyzeCrossPaperRelationships paperId])
               @ [FindPaperByArxivId arxivId])
              = [FetchPaper arxivId, ExtractEntities paper, ValidateExtraction extr paper]"
        by simp
      from first second calls show ?thesis
        unfolding Let_def by (intro conjI)
    qed
    have raises: "processPaper B env db arxivId
                   = (Inr False, db0,
                      [FindPaperByArxivId arxivId, FetchPaper arxivId, InsertPaper paper,
                       ExtractEntities paper])
                 \<and> processPaper B env db0 arxivId
                     = (Inr True, db0, [FindPaperByArxivId arxivId])"
      if failed: "extractEntities env paper = Inl e"
      using processPaper_extraction_raises [OF absent fetched relevant inserted failed]
        processPaper_existing [OF found]
      by simp
    show "(extractEntities env paper = Inr extr
             \<longrightarrow> (let written = storeKnowledgeGraph env db0 paperId
                                  (extraction (validateExtraction B extr paper));
                       db1 = fst written;
                       tr1 = [FindPaperByArxivId arxivId, FetchPaper arxivId, InsertPaper paper,
                              ExtractEntities paper, ValidateExtraction extr paper]
                             @ snd (snd written) @ [AnalyzeCrossPaperRelationships paperId]
                   in processPaper B env db arxivId = (Inr True, db1, tr1)
                      \<and> processPaper B env db1 arxivId
                          = (Inr True, db1, [FindPaperByArxivId arxivId])
                      \<and> filter isPipelineCall (tr1 @ [FindPaperByArxivId arxivId])
                          = [FetchPaper arxivId, ExtractEntities paper,
                             ValidateExtraction extr paper]))
          \<and> (extractEntities env paper = Inl e
             \<longrightarrow> processPaper B env db arxivId
                   = (Inr False, db0,
                      [FindPaperByArxivId arxivId, FetchPaper arxivId, InsertPaper paper,
                       ExtractEntities paper])
                 \<and> processPaper B env db0 arxivId
                     = (Inr True, db0, [FindPaperByArxivId arxivId]))"
      by (intro conjI impI;
          (rule succeeds | rule raises [THEN conjunct1] | rule raises [THEN conjunct2]);
          assumption)
  qed
qed

theorem already_present_short_circuit_witness:
  "processPaper exampleBuiltins exampleEnv emptyStore (str ''2308.04079'')
     = (Inr True, storeAfterFirstRun,
        [FindPaperByArxivId (str ''2308.04079''), FetchPaper (str ''2308.04079''),
         InsertPaper examplePaper, ExtractEntities examplePaper,
         ValidateExtraction extractionMid examplePaper,
         InsertConcept conceptHigh,
         LinkPaperConcept (str ''2308.04079'') (str ''Gaussian Splatting'') (str ''mentions'')
           (9 / 10),
         InsertRelationship (str ''2308.04079'') relationshipGrounded,
         AnalyzeCrossPaperRelationships (str ''2308.04079'')])
   \<and> processPaper exampleBuiltins exampleEnv storeAfterFirstRun (str ''2308.04079'')
       = (Inr True, storeAfterFirstRun, [FindPaperByArxivId (str ''2308.04079'')])
   \<and> processPaper exampleBuiltins failingExtractEnv emptyStore (str ''2308.04079'')
       = (Inr False, emptyStore\<lparr>paperRows := [examplePaper]\<rparr>,
          [FindPaperByArxivId (str ''2308.04079''), FetchPaper (str ''2308.04079''),
           InsertPaper examplePaper, ExtractEntities examplePaper])
   \<and> processPaper exampleBuiltins failingExtractEnv (emptyStore\<lparr>paperRows := [examplePaper]\<rparr>)
        (str ''2308.04079'')
       = (Inr True, emptyStore\<lparr>paperRows := [examplePaper]\<rparr>,
          [FindPaperByArxivId (str ''2308.04079'')])"
proof -
  let ?id = "str ''2308.04079''"
  let ?db0 = "emptyStore\<lparr>paperRows := [examplePaper]\<rparr>"
  have frameC: "\<forall>d c cid d'. insertConcept (memoryEnv f x) d c = Inr (cid, d')
              \<longrightarrow> findPaperByArxivId (memoryEnv f x) d' ?id
                    = findPaperByArxivId (memoryEnv f x) d ?id" for f x
    by (auto simp add: memoryEnv_def memInsertConcept_def memFindPaperByArxivId_def
        split: if_splits)
  have frameL: "\<forall>d p c rel q d'. linkPaperConcept (memoryEnv f x) d p c rel q = Inr d'
              \<longrightarrow> findPaperByArxivId (memoryEnv f x) d' ?id
                    = findPaperByArxivId (memoryEnv f x) d ?id" for f x
    by (auto simp add: memoryEnv_def memLinkPaperConcept_def memFindPaperByArxivId_def
        split: if_splits)
  have frameR: "\<forall>d p r d'. insertRelationship (memoryEnv f x) d p r = Inr d'
              \<longrightarrow> findPaperByArxivId (memoryEnv f x) d' ?id
                    = findPaperByArxivId (memoryEnv f x) d ?id" for f x
    by (auto simp add: memoryEnv_def memInsertRelationship_def memFindPaperByArxivId_def
        split: if_splits)
  have absent: "findPaperByArxivId (memoryEnv f x) emptyStore ?id = Inr None" for f x
    by (simp add: memoryEnv_def memFindPaperByArxivId_def emptyStore_def)
  have fetched: "fetchPaper (memoryEnv exampleFetch x) ?id = Inr examplePaper" for x
    by (simp add: memoryEnv_def exampleFetch_def)
  have relevant: "isRelevantToGaussianSplatting exampleBuiltins examplePaper"
    by code_simp
  have ident: "arxiv_id examplePaper = ?id"
    by (simp add: examplePaper_def)
  have inserted: "insertPaper (memoryEnv f x) emptyStore examplePaper = Inr (?id, ?db0)" for f x
    by (simp add: memoryEnv_def memInsertPaper_def emptyStore_def ident)
  have found: "findPaperByArxivId (memoryEnv f x) ?db0 ?id = Inr (Some examplePaper)" for f x
    by (simp add: memoryEnv_def memFindPaperByArxivId_def emptyStore_def ident)
  have extracted: "extractEntities exampleEnv examplePaper = Inr extractionMid"
    by (simp add: exampleEnv_def memoryEnv_def exampleExtract_def)
  have failed: "extractEntities failingExtractEnv examplePaper
                  = Inl (Failure ''Failed to parse AI extraction'')"
    by (simp add: failingExtractEnv_def memoryEnv_def failingExtract_def)
  have written: "storeKnowledgeGraph exampleEnv ?db0 ?id
                   (extraction (validateExtraction exampleBuiltins extractionMid examplePaper))
                 = (storeAfterFirstRun, 2,
                    [InsertConcept conceptHigh,
                     LinkPaperConcept ?id (str ''Gaussian Splatting'') (str ''mentions'') (9 / 10),
                     InsertRelationship ?id relationshipGrounded])"
    unfolding storeKnowledgeGraph_def validateExtraction_concepts
      validateExtraction_relationships
    by code_simp
  have h1: "findPaperByArxivId exampleEnv emptyStore ?id = Inr None
        \<and> fetchPaper exampleEnv ?id = Inr examplePaper
        \<and> isRelevantToGaussianSplatting exampleBuiltins examplePaper
        \<and> insertPaper exampleEnv emptyStore examplePaper = Inr (?id, ?db0)
        \<and> findPaperByArxivId exampleEnv ?db0 ?id = Inr (Some examplePaper)
        \<and> (\<forall>d c cid d'. insertConcept exampleEnv d c = Inr (cid, d')
              \<longrightarrow> findPaperByArxivId exampleEnv d' ?id = findPaperByArxivId exampleEnv d ?id)
        \<and> (\<forall>d p c rel q d'. linkPaperConcept exampleEnv d p c rel q = Inr d'
              \<longrightarrow> findPaperByArxivId exampleEnv d' ?id = findPaperByArxivId exampleEnv d ?id)
        \<and> (\<forall>d p r d'. insertRelationship exampleEnv d p r = Inr d'
              \<longrightarrow> findPaperByArxivId exampleEnv d' ?id = findPaperByArxivId exampleEnv d ?id)"
    unfolding exampleEnv_def
    by (intro conjI absent fetched relevant inserted found frameC frameL frameR)
  have h2: "findPaperByArxivId failingExtractEnv emptyStore ?id = Inr None
        \<and> fetchPaper failingExtractEnv ?id = Inr examplePaper
        \<and> isRelevantToGaussianSplatting exampleBuiltins examplePaper
        \<and> insertPaper failingExtractEnv emptyStore examplePaper = Inr (?id, ?db0)
        \<and> findPaperByArxivId failingExtractEnv ?db0 ?id = Inr (Some examplePaper)
        \<and> (\<forall>d c cid d'. insertConcept failingExtractEnv d c = Inr (cid, d')
              \<longrightarrow> findPaperByArxivId failingExtractEnv d' ?id
                    = findPaperByArxivId failingExtractEnv d ?id)
        \<and> (\<forall>d p c rel q d'. linkPaperConcept failingExtractEnv d p c rel q = Inr d'
              \<longrightarrow> findPaperByArxivId failingExtractEnv d' ?id
                    = findPaperByArxivId failingExtractEnv d ?id)
        \<and> (\<forall>d p r d'. insertRelationship failingExtractEnv d p r = Inr d'
              \<longrightarrow> findPaperByArxivId failingExtractEnv d' ?id
                    = findPaperByArxivId failingExtractEnv d ?id)"
    unfolding failingExtractEnv_def
    by (intro conjI absent fetched relevant inserted found frameC frameL frameR)
  note t1 = already_present_short_circuit
    [where B = exampleBuiltins and env = exampleEnv and db = emptyStore and arxivId = ?id
       and paper = examplePaper and paperId = ?id and ?db0.0 = ?db0 and stored = examplePaper
       and extr = extractionMid]
  note t2 = already_present_short_circuit
    [where B = exampleBuiltins and env = failingExtractEnv and db = emptyStore
       and arxivId = ?id and paper = examplePaper and paperId = ?id and ?db0.0 = ?db0
       and stored = examplePaper and e = "Failure ''Failed to parse AI extraction''"]
  from t1 [THEN conjunct2, THEN conjunct1, THEN mp, OF h1, THEN conjunct1, THEN mp,
           OF extracted]
  have a: "processPaper exampleBuiltins exampleEnv emptyStore ?id
             = (Inr True, storeAfterFirstRun,
                [FindPaperByArxivId ?id, FetchPaper ?id, InsertPaper examplePaper,
                 ExtractEntities examplePaper, ValidateExtraction extractionMid examplePaper,
                 InsertConcept conceptHigh,
                 LinkPaperConcept ?id (str ''Gaussian Splatting'') (str ''mentions'') (9 / 10),
                 InsertRelationship ?id relationshipGrounded,
                 AnalyzeCrossPaperRelationships ?id])
           \<and> processPaper exampleBuiltins exampleEnv storeAfterFirstRun ?id
               = (Inr True, storeAfterFirstRun, [FindPaperByArxivId ?id])"
    unfolding written Let_def by simp
  from t2 [THEN conjunct2, THEN conjunct1, THEN mp, OF h2, THEN conjunct2, THEN mp, OF failed]
  have b: "processPaper exampleBuiltins failingExtractEnv emptyStore ?id
            = (Inr False, ?db0,
               [FindPaperByArxivId ?id, FetchPaper ?id, InsertPaper examplePaper,
                ExtractEntities examplePaper])
          \<and> processPaper exampleBuiltins failingExtractEnv ?db0 ?id
              = (Inr True, ?db0, [FindPaperByArxivId ?id])" .
  from a b show ?thesis
    by (intro conjI) simp_all
qed




lemma sleepsOf_append: "sleepsOf (a @ b) = sleepsOf a @ sleepsOf b"
  by (induction a rule: sleepsOf.induct) simp_all

lemma sleepsOf_entity_writes:
  "(\<And>e. e \<in> set tr \<Longrightarrow> isEntityWrite e) \<Longrightarrow> sleepsOf tr = []"
proof (induction tr)
  case Nil
  then show ?case by simp
next
  case (Cons e tr)
  then have "isEntityWrite e" by simp
  with Cons show ?case by (cases e) simp_all
qed

lemma sleepsOf_storeKnowledgeGraph:
  "sleepsOf (snd (snd (storeKnowledgeGraph env db paperId extr))) = []"
  using storeKnowledgeGraph_entity_writes by (rule sleepsOf_entity_writes)

lemma sleepsOf_processPaperBody:
  "sleepsOf (snd (snd (processPaperBody B env db arxivId))) = []"
proof -
  have "sleepsOf tr = []"
    if "storeKnowledgeGraph env db1 paperId extr = (db2, n, tr)" for db1 paperId extr db2 n tr
    using sleepsOf_storeKnowledgeGraph [of env db1 paperId extr] that by simp
  then show ?thesis
    by (auto simp: processPaperBody_def Let_def sleepsOf_append
        split: sum.splits option.splits prod.splits)
qed

lemma sleepsOf_processPaper:
  "sleepsOf (snd (snd (processPaper B env db arxivId))) = []"
  using sleepsOf_processPaperBody [of B env db arxivId]
  by (auto simp: processPaper_def split: prod.splits sum.splits)

lemma sleepsOf_processBatch:
  "sleepsOf (snd (snd (snd (processBatch B env batch (db, p, f, tr))))) = sleepsOf tr"
proof (induction batch arbitrary: db p f tr)
  case Nil
  then show ?case by simp
next
  case (Cons paper batch)
  obtain r db1 tr1 where pp: "processPaper B env db (arxiv_id paper) = (r, db1, tr1)"
    by (cases "processPaper B env db (arxiv_id paper)") auto
  with sleepsOf_processPaper [of B env db "arxiv_id paper"] have "sleepsOf tr1 = []" by simp
  with pp Cons.IH show ?case
    by (cases r) (simp_all add: sleepsOf_append)
qed

lemma batchLoop_done:
  "\<not> i < length papers \<Longrightarrow> batchLoop B env papers i s = s"
  by (subst batchLoop.simps) simp

lemma batchLoop_next:
  assumes "i < length papers"
    and "processBatch B env (take 5 (drop i papers)) s = (db1, p1, f1, tr1)"
    and "i + 5 < length papers"
  shows "batchLoop B env papers i s
           = batchLoop B env papers (i + 5) (db1, p1, f1, tr1 @ [Sleep (adaptiveDelay p1 f1)])"
  using assms by (subst batchLoop.simps) (simp add: BATCH_SIZE_def)

lemma batchLoop_last:
  assumes "i < length papers"
    and "processBatch B env (take 5 (drop i papers)) s = (db1, p1, f1, tr1)"
    and "\<not> i + 5 < length papers"
  shows "batchLoop B env papers i s = (db1, p1, f1, tr1)"
proof -
  have "batchLoop B env papers i s = batchLoop B env papers (i + 5) (db1, p1, f1, tr1)"
    using assms by (subst batchLoop.simps) (simp add: BATCH_SIZE_def)
  also have "\<dots> = (db1, p1, f1, tr1)"
    using assms(3) by (intro batchLoop_done) simp
  finally show ?thesis .
qed

lemma batch_of_prefix:
  "i + 5 \<le> m \<Longrightarrow> take 5 (drop i (take m xs)) = take 5 (drop i xs)"
  by (simp add: drop_take min_def)

lemma batchLoop_sleeps:
  "\<exists>db' p' f' tr' ds.
      batchLoop B env papers i (db, p, f, tr) = (db', p', f', tr')
    \<and> sleepsOf tr' = sleepsOf tr @ ds
    \<and> length ds = (length papers - i + 4) div 5 - 1
    \<and> (\<forall>k < length ds.
          ds ! k = (case batchLoop B env (take (i + 5 * (k + 1)) papers) i (db, p, f, tr) of
                      (dbk, pk, fk, trk) \<Rightarrow> adaptiveDelay pk fk))"
proof (induction "length papers - i" arbitrary: i db p f tr rule: less_induct)
  case less
  show ?case
  proof (cases "i < length papers")
    case False
    then have "batchLoop B env papers i (db, p, f, tr) = (db, p, f, tr)"
      by (rule batchLoop_done)
    with False show ?thesis by simp
  next
    case inside: True
    obtain db1 p1 f1 tr1 where
      b: "processBatch B env (take 5 (drop i papers)) (db, p, f, tr) = (db1, p1, f1, tr1)"
      by (cases "processBatch B env (take 5 (drop i papers)) (db, p, f, tr)") auto
    have quiet: "sleepsOf tr1 = sleepsOf tr"
      using sleepsOf_processBatch [of B env "take 5 (drop i papers)" db p f tr] b by simp
    show ?thesis
    proof (cases "i + 5 < length papers")
      case False
      have "batchLoop B env papers i (db, p, f, tr) = (db1, p1, f1, tr1)"
        using inside b False by (rule batchLoop_last)
      moreover from inside False have "(length papers - i + 4) div 5 - 1 = 0"
        by simp
      ultimately show ?thesis using quiet by simp
    next
      case more: True
      let ?d = "adaptiveDelay p1 f1"
      have step: "batchLoop B env papers i (db, p, f, tr)
                    = batchLoop B env papers (i + 5) (db1, p1, f1, tr1 @ [Sleep ?d])"
        using inside b more by (rule batchLoop_next)
      from more have "length papers - (i + 5) < length papers - i" by simp
      from less [OF this, of db1 p1 f1 "tr1 @ [Sleep ?d]"]
      obtain db' p' f' tr' ds where
        run: "batchLoop B env papers (i + 5) (db1, p1, f1, tr1 @ [Sleep ?d]) = (db', p', f', tr')"
        and sl: "sleepsOf tr' = sleepsOf (tr1 @ [Sleep ?d]) @ ds"
        and len: "length ds = (length papers - (i + 5) + 4) div 5 - 1"
        and nth: "\<forall>k < length ds.
            ds ! k = (case batchLoop B env (take (i + 5 + 5 * (k + 1)) papers) (i + 5)
                             (db1, p1, f1, tr1 @ [Sleep ?d]) of
                        (dbk, pk, fk, trk) \<Rightarrow> adaptiveDelay pk fk)"
        by blast
      have sl': "sleepsOf tr' = sleepsOf tr @ (?d # ds)"
        using sl quiet by (simp add: sleepsOf_append)
      have len': "length (?d # ds) = (length papers - i + 4) div 5 - 1"
        using len more by simp
      have nth': "(?d # ds) ! k
                    = (case batchLoop B env (take (i + 5 * (k + 1)) papers) i (db, p, f, tr) of
                         (dbk, pk, fk, trk) \<Rightarrow> adaptiveDelay pk fk)"
        if k: "k < length (?d # ds)" for k
      proof (cases k)
        case 0
        let ?prefix = "take (i + 5) papers"
        have "i < length ?prefix" using more by simp
        moreover have "take 5 (drop i ?prefix) = take 5 (drop i papers)"
          by (rule batch_of_prefix) simp
        then have "processBatch B env (take 5 (drop i ?prefix)) (db, p, f, tr)
                         = (db1, p1, f1, tr1)"
          using b by (simp only:)
        moreover have "\<not> i + 5 < length ?prefix" by simp
        ultimately have "batchLoop B env ?prefix i (db, p, f, tr) = (db1, p1, f1, tr1)"
          by (rule batchLoop_last)
        with 0 show ?thesis by simp
      next
        case (Suc j)
        let ?prefix = "take (i + 5 * (k + 1)) papers"
        have "i < length ?prefix" using more by simp
        moreover have "take 5 (drop i ?prefix) = take 5 (drop i papers)"
          by (rule batch_of_prefix) simp
        then have "processBatch B env (take 5 (drop i ?prefix)) (db, p, f, tr)
                         = (db1, p1, f1, tr1)"
          using b by (simp only:)
        moreover have "i + 5 < length ?prefix" using more Suc by simp
        ultimately have pstep: "batchLoop B env ?prefix i (db, p, f, tr)
                           = batchLoop B env ?prefix (i + 5) (db1, p1, f1, tr1 @ [Sleep ?d])"
          by (rule batchLoop_next)
        have eq: "i + 5 + 5 * (j + 1) = i + 5 * (k + 1)" using Suc by simp
        from k Suc have "j < length ds" by simp
        with nth have "ds ! j = (case batchLoop B env (take (i + 5 + 5 * (j + 1)) papers) (i + 5)
                                        (db1, p1, f1, tr1 @ [Sleep ?d]) of
                                   (dbk, pk, fk, trk) \<Rightarrow> adaptiveDelay pk fk)"
          by blast
        then have "ds ! j = (case batchLoop B env ?prefix (i + 5)
                                    (db1, p1, f1, tr1 @ [Sleep ?d]) of
                               (dbk, pk, fk, trk) \<Rightarrow> adaptiveDelay pk fk)"
          by (simp only: eq)
        moreover have "(?d # ds) ! k = ds ! j" using Suc by simp
        ultimately show ?thesis by (simp only: pstep)
      qed
      show ?thesis
      proof (intro exI conjI)
        show "batchLoop B env papers i (db, p, f, tr) = (db', p', f', tr')"
          using step run by simp
        show "sleepsOf tr' = sleepsOf tr @ (?d # ds)"
          by (rule sl')
        show "length (?d # ds) = (length papers - i + 4) div 5 - 1"
          by (rule len')
        show "\<forall>k < length (?d # ds).
                (?d # ds) ! k
                  = (case batchLoop B env (take (i + 5 * (k + 1)) papers) i (db, p, f, tr) of
                       (dbk, pk, fk, trk) \<Rightarrow> adaptiveDelay pk fk)"
          using nth' by blast
      qed
    qed
  qed
qed

text \<open>
  Claim C8.  \<^verbatim>\<open>processPapersAtScale\<close> sleeps once after every batch of five but the
  last.  The delay after batch \<open>k + 1\<close> is 5000 when, of the papers in
  \<^verbatim>\<open>processed\<close> and \<^verbatim>\<open>failed\<close> after the first \<open>5 * (k + 1)\<close> candidates, more than
  3 in 10 are in \<^verbatim>\<open>failed\<close>, and 2000 otherwise.  With 4 succeeded and 2 failed the
  delay is 5000; with 8 succeeded and 1 failed it is 2000.
\<close>

theorem adaptive_delay_between_batches:
  "(\<exists>db' processed' failed' tr.
       processPapersAtScale B env db papers processed failed = (db', processed', failed', tr)
     \<and> length (sleepsOf tr) = (length papers + 4) div 5 - 1
     \<and> (\<forall>k < length (sleepsOf tr).
           sleepsOf tr ! k
             = (case processPapersAtScale B env db (take (5 * (k + 1)) papers) processed failed of
                  (dbk, processedk, failedk, trk) \<Rightarrow>
                    if (of_nat (length failedk) :: rat)
                         / of_nat (length processedk + length failedk) > 3 / 10
                    then 5000 else 2000)))
   \<and> (length succeeded = 4 \<and> length failed2 = 2 \<longrightarrow> adaptiveDelay succeeded failed2 = 5000)
   \<and> (length succeeded = 8 \<and> length failed2 = 1 \<longrightarrow> adaptiveDelay succeeded failed2 = 2000)"
proof (intro conjI)
  from batchLoop_sleeps [of B env papers 0 db processed failed "[]"]
  obtain db' p' f' tr ds where
    run: "batchLoop B env papers 0 (db, processed, failed, []) = (db', p', f', tr)"
    and sl: "sleepsOf tr = ds"
    and len: "length ds = (length papers + 4) div 5 - 1"
    and nth: "\<forall>k < length ds.
          ds ! k = (case batchLoop B env (take (5 * (k + 1)) papers) 0 (db, processed, failed, []) of
                      (dbk, pk, fk, trk) \<Rightarrow> adaptiveDelay pk fk)"
    by auto
  have "\<forall>k < length (sleepsOf tr).
           sleepsOf tr ! k
             = (case processPapersAtScale B env db (take (5 * (k + 1)) papers) processed failed of
                  (dbk, processedk, failedk, trk) \<Rightarrow>
                    if (of_nat (length failedk) :: rat)
                         / of_nat (length processedk + length failedk) > 3 / 10
                    then 5000 else 2000)"
    using nth sl by (simp add: processPapersAtScale_def adaptiveDelay_def Let_def)
  with run sl len
  show "\<exists>db' processed' failed' tr.
       processPapersAtScale B env db papers processed failed = (db', processed', failed', tr)
     \<and> length (sleepsOf tr) = (length papers + 4) div 5 - 1
     \<and> (\<forall>k < length (sleepsOf tr).
           sleepsOf tr ! k
             = (case processPapersAtScale B env db (take (5 * (k + 1)) papers) processed failed of
                  (dbk, processedk, failedk, trk) \<Rightarrow>
                    if (of_nat (length failedk) :: rat)
                         / of_nat (length processedk + length failedk) > 3 / 10
                    then 5000 else 2000))"
    unfolding processPapersAtScale_def by blast
next
  show "length succeeded = 4 \<and> length failed2 = 2 \<longrightarrow> adaptiveDelay succeeded failed2 = 5000"
    by (simp add: adaptiveDelay_def)
next
  show "length succeeded = 8 \<and> length failed2 = 1 \<longrightarrow> adaptiveDelay succeeded failed2 = 2000"
    by (simp add: adaptiveDelay_def)
qed

theorem adaptive_delay_between_batches_witness:
  "sleepsOf (snd (snd (snd (processPapersAtScale exampleBuiltins exampleEnv emptyStore sixCandidates
                              [str ''2308.04079''] [])))) = [5000]
   \<and> adaptiveDelay [str ''a'', str ''b'', str ''c'', str ''d''] [str ''e'', str ''f''] = 5000
   \<and> adaptiveDelay [str ''a'', str ''b'', str ''c'', str ''d'', str ''e'', str ''f'', str ''g'', str ''h''] [str ''i''] = 2000"
proof -
  note t = adaptive_delay_between_batches
         [where B = exampleBuiltins and env = exampleEnv and db = emptyStore and papers = sixCandidates
            and processed = "[str ''2308.04079'']" and failed = "[]"]
  from t [THEN conjunct1]
  obtain db' processed' failed' tr where
    run: "processPapersAtScale exampleBuiltins exampleEnv emptyStore sixCandidates [str ''2308.04079''] []
            = (db', processed', failed', tr)"
    and len: "length (sleepsOf tr) = (length sixCandidates + 4) div 5 - 1"
    and nth: "\<forall>k < length (sleepsOf tr).
           sleepsOf tr ! k
             = (case processPapersAtScale exampleBuiltins exampleEnv emptyStore
                       (take (5 * (k + 1)) sixCandidates) [str ''2308.04079''] [] of
                  (dbk, processedk, failedk, trk) \<Rightarrow>
                    if (of_nat (length failedk) :: rat)
                         / of_nat (length processedk + length failedk) > 3 / 10
                    then 5000 else 2000)"
    by blast
  have one: "(length sixCandidates + 4) div 5 - 1 = 1"
    by (simp add: sixCandidates_def)
  have first: "(case processPapersAtScale exampleBuiltins exampleEnv emptyStore
                       (take (5 * (0 + 1)) sixCandidates) [str ''2308.04079''] [] of
                  (dbk, processedk, failedk, trk) \<Rightarrow>
                    if (of_nat (length failedk) :: rat)
                         / of_nat (length processedk + length failedk) > 3 / 10
                    then 5000 else 2000) = (5000 :: nat)"
    by code_simp
  from len one have l: "length (sleepsOf tr) = 1" by simp
  with nth first have "sleepsOf tr ! 0 = 5000" by auto
  with l have "sleepsOf tr = [5000]"
    by (cases "sleepsOf tr") auto
  with run have sleeps: "sleepsOf (snd (snd (snd (processPapersAtScale exampleBuiltins exampleEnv emptyStore
                              sixCandidates [str ''2308.04079''] [])))) = [5000]"
    by simp
  have high: "adaptiveDelay [str ''a'', str ''b'', str ''c'', str ''d''] [str ''e'', str ''f''] = 5000"
    using t [where succeeded = "[str ''a'', str ''b'', str ''c'', str ''d'']" and ?failed2.0 = "[str ''e'', str ''f'']",
             THEN conjunct2, THEN conjunct1]
    by simp
  have low: "adaptiveDelay [str ''a'', str ''b'', str ''c'', str ''d'', str ''e'', str ''f'', str ''g'', str ''h''] [str ''i''] = 2000"
    using t [where succeeded = "[str ''a'', str ''b'', str ''c'', str ''d'', str ''e'', str ''f'', str ''g'', str ''h'']"
               and ?failed2.0 = "[str ''i'']",
             THEN conjunct2, THEN conjunct2]
    by simp
  from sleeps high low show ?thesis by simp
qed

lemma insertSorted_insort_key:
  "insertSorted (\<lambda>a b. f b - f a) x ys = insort_key (\<lambda>p. - f p) x ys"
  for f :: "'a \<Rightarrow> int"
  by (induction ys) auto

lemma sortJS_sort_key:
  "sortJS (\<lambda>a b. f b - f a) xs = sort_key (\<lambda>p. - f p) xs"
  for f :: "'a \<Rightarrow> int"
  by (induction xs) (simp_all add: sortJS_def sort_key_def insertSorted_insort_key)

lemma calculateRelevanceScore_sum:
  "calculateRelevanceScore B paper =
     (let content = toLowerCase B (title paper @ str '' '' @ abstract paper)
      in (if includesStr content (str ''gaussian splatting'') then 3 else 0)
         + (if includesStr content (str ''3dgs'') then 2 else 0)
         + (if includesStr content (str ''radiance field'') then 2 else 0)
         + (if includesStr content (str ''real-time'') then 1 else 0))"
  by (simp add: calculateRelevanceScore_def Let_def)

text \<open>
  Claim C9.  The relevance score of a candidate is 3 for "gaussian splatting" plus 2
  for "3dgs" plus 2 for "radiance field" plus 1 for "real-time", each counted when the
  lowercased title and abstract contain it.  For a limit that is not negative,
  prioritisation returns the first \<open>limit\<close> candidates of a rearrangement of the input
  that is in descending order of score and keeps candidates of equal score in their
  input order.  A candidate of score 4 comes before a candidate of score 2.
\<close>

theorem prioritization_by_score:
  "calculateRelevanceScore B paper =
     (let content = toLowerCase B (title paper @ str '' '' @ abstract paper)
      in (if includesStr content (str ''gaussian splatting'') then 3 else 0)
         + (if includesStr content (str ''3dgs'') then 2 else 0)
         + (if includesStr content (str ''radiance field'') then 2 else 0)
         + (if includesStr content (str ''real-time'') then 1 else 0))
   \<and> (0 \<le> limit \<longrightarrow>
        (\<exists>ranked. prioritizePapersByRelevance B papers limit = take (nat limit) ranked
           \<and> mset ranked = mset papers
           \<and> sorted_wrt (\<lambda>a b. calculateRelevanceScore B a \<ge> calculateRelevanceScore B b) ranked
           \<and> (\<forall>k. filter (\<lambda>p. calculateRelevanceScore B p = k) ranked
                    = filter (\<lambda>p. calculateRelevanceScore B p = k) papers)))
   \<and> (calculateRelevanceScore B a = 4 \<and> calculateRelevanceScore B b = 2
        \<longrightarrow> prioritizePapersByRelevance B [b, a] 2 = [a, b]
            \<and> prioritizePapersByRelevance B [a, b] 2 = [a, b])"
proof -
  let ?ranked = "sort_key (\<lambda>p. - calculateRelevanceScore B p) papers"
  have ranked: "prioritizePapersByRelevance B papers limit = take (nat limit) ?ranked"
    if "0 \<le> limit"
    using that by (simp add: prioritizePapersByRelevance_def slice0_def sortJS_sort_key)
  have perm: "mset ?ranked = mset papers"
    by simp
  have "sorted (map (\<lambda>p. - calculateRelevanceScore B p) ?ranked)"
    by (rule sorted_sort_key)
  then have desc: "sorted_wrt (\<lambda>a b. calculateRelevanceScore B a \<ge> calculateRelevanceScore B b) ?ranked"
    by (simp add: sorted_map)
  have stable: "filter (\<lambda>p. calculateRelevanceScore B p = k) ?ranked
                  = filter (\<lambda>p. calculateRelevanceScore B p = k) papers" for k
    using sort_key_stable [of "\<lambda>p. - calculateRelevanceScore B p" "- k" papers] by simp
  have example: "prioritizePapersByRelevance B [b, a] 2 = [a, b]
                 \<and> prioritizePapersByRelevance B [a, b] 2 = [a, b]"
    if "calculateRelevanceScore B a = 4" "calculateRelevanceScore B b = 2"
    using that by (simp add: prioritizePapersByRelevance_def slice0_def sortJS_def)
  from ranked perm desc stable example show ?thesis
    using calculateRelevanceScore_sum [of B paper] by blast
qed

theorem prioritization_by_score_witness:
  "calculateRelevanceScore exampleBuiltins paperSplatRealtime = 4 \<and> calculateRelevanceScore exampleBuiltins paper3dgs = 2
   \<and> prioritizePapersByRelevance exampleBuiltins [paper3dgs, paperSplatRealtime] 2
       = [paperSplatRealtime, paper3dgs]
   \<and> (\<exists>ranked. prioritizePapersByRelevance exampleBuiltins [paper3dgs, paperSplatRealtime, examplePaper] 2
                   = take 2 ranked
          \<and> mset ranked = mset [paper3dgs, paperSplatRealtime, examplePaper]
          \<and> sorted_wrt (\<lambda>a b. calculateRelevanceScore exampleBuiltins a \<ge> calculateRelevanceScore exampleBuiltins b) ranked)"
proof -
  have h: "calculateRelevanceScore exampleBuiltins paperSplatRealtime = 4 \<and> calculateRelevanceScore exampleBuiltins paper3dgs = 2"
    by code_simp
  note t = prioritization_by_score [where B = exampleBuiltins and limit = 2 and a = paperSplatRealtime
      and b = paper3dgs and papers = "[paper3dgs, paperSplatRealtime, examplePaper]"]
  from t [THEN conjunct2, THEN conjunct2, THEN mp, OF h]
  have ahead: "prioritizePapersByRelevance exampleBuiltins [paper3dgs, paperSplatRealtime] 2
                 = [paperSplatRealtime, paper3dgs]"
    by simp
  have "(0::int) \<le> 2" by simp
  from t [THEN conjunct2, THEN conjunct1, THEN mp, OF this]
  have "\<exists>ranked. prioritizePapersByRelevance exampleBuiltins [paper3dgs, paperSplatRealtime, examplePaper] 2
                   = take 2 ranked
          \<and> mset ranked = mset [paper3dgs, paperSplatRealtime, examplePaper]
          \<and> sorted_wrt (\<lambda>a b. calculateRelevanceScore exampleBuiltins a \<ge> calculateRelevanceScore exampleBuiltins b) ranked"
    by auto
  with h ahead show ?thesis by simp
qed

end
